theory Spec2Isabelle
  imports Main
begin

section \<open>Python values used by main.py\<close>

text \<open>
  Exceptions are values. The program distinguishes only \<open>ValueError\<close> (caught by name in
  \<open>parse_expiry\<close> and \<open>handle_trainingportal_expiry\<close>) from the other subclasses of
  \<open>Exception\<close> (caught by \<open>except Exception\<close> in \<open>delete\<close> and \<open>main\<close>).
\<close>

datatype exn = ValueError string | Exception string

fun str_exn :: "exn \<Rightarrow> string" where
  "str_exn (ValueError m) = m"
| "str_exn (Exception m) = m"

text \<open>
  A naive \<open>datetime.datetime\<close> (no tzinfo): its seven fields. None of the patterns of
  \<open>DATETIME_PATTERNS\<close> has a \<open>%z\<close> directive and \<open>utcnow()\<close> returns a naive value, so
  every datetime of this program is naive.
\<close>

record datetime =
  year :: nat
  month :: nat
  day :: nat
  hour :: nat
  minute :: nat
  second :: nat
  microsecond :: nat

definition timetuple :: "datetime \<Rightarrow> nat list" where
  "timetuple d = [year d, month d, day d, hour d, minute d, second d, microsecond d]"

text \<open>Comparison of naive datetimes is the comparison of their field tuples.\<close>

fun tuple_less :: "nat list \<Rightarrow> nat list \<Rightarrow> bool" where
  "tuple_less (x # xs) (y # ys) = (x < y \<or> (x = y \<and> tuple_less xs ys))"
| "tuple_less [] (y # ys) = True"
| "tuple_less xs [] = False"

definition datetime_gt :: "datetime \<Rightarrow> datetime \<Rightarrow> bool" where
  "datetime_gt a b = tuple_less (timetuple b) (timetuple a)"

text \<open>\<open>d.replace(tzinfo=None)\<close> on a naive datetime returns an equal datetime.\<close>

definition replace_tzinfo_None :: "datetime \<Rightarrow> datetime" where
  "replace_tzinfo_None d = d"

section \<open>datetime.datetime.strptime\<close>

text \<open>
  The standard library's \<open>strptime\<close> turns the format into a regular expression, matches
  it case-insensitively at the start of the data, raises \<open>ValueError\<close> when there is no
  match or when data remains after the match, and raises \<open>ValueError\<close> again when the
  fields are not a date and time of day. Only what the three patterns of
  \<open>DATETIME_PATTERNS\<close> use is modelled: the directives \<open>%Y %m %d %H %M %S\<close> and literal
  characters other than white space. Strings are lists of 8-bit characters, among which
  \<open>\d\<close> matches the ten ASCII digits only.
\<close>

type_synonym char_class = string

definition D :: char_class where
  "D = ''0123456789''"

definition D19 :: char_class where
  "D19 = ''123456789''"

text \<open>The alternatives of a directive's regular expression, in the order they are tried.\<close>

definition directive :: "char \<Rightarrow> char_class list list option" where
  "directive c =
     (if c = CHR ''Y'' then Some [[D, D, D, D]]
      else if c = CHR ''m'' then Some [[''1'', ''012''], [''0'', D19], [D19]]
      else if c = CHR ''d'' then
        Some [[''3'', ''01''], [''12'', D], [''0'', D19], [D19], ['' '', D19]]
      else if c = CHR ''H'' then Some [[''2'', ''0123''], [''01'', D], [D]]
      else if c = CHR ''M'' then Some [[''012345'', D], [D]]
      else if c = CHR ''S'' then Some [[''6'', ''01''], [''012345'', D], [D]]
      else None)"

datatype item = Lit char | Dir char

fun compile_format :: "string \<Rightarrow> item list option" where
  "compile_format [] = Some []"
| "compile_format [c] = (if c = CHR ''%'' then None else Some [Lit c])"
| "compile_format (c # d # ds) =
     (if c = CHR ''%'' then
        (case directive d of
           None \<Rightarrow> None
         | Some alts \<Rightarrow> map_option ((#) (Dir d)) (compile_format ds))
      else map_option ((#) (Lit c)) (compile_format (d # ds)))"

fun match_alt :: "char_class list \<Rightarrow> string \<Rightarrow> (string \<times> string) option" where
  "match_alt [] s = Some ([], s)"
| "match_alt (cl # cls) [] = None"
| "match_alt (cl # cls) (c # s) =
     (if c \<in> set cl then map_option (\<lambda>(m, r). (c # m, r)) (match_alt cls s) else None)"

definition same_letter :: "char \<Rightarrow> char \<Rightarrow> bool" where
  "same_letter a b =
     (let folds = zip ''ABCDEFGHIJKLMNOPQRSTUVWXYZ'' ''abcdefghijklmnopqrstuvwxyz''
      in a = b \<or> (a, b) \<in> set folds \<or> (b, a) \<in> set folds)"

text \<open>
  Every way the items match a prefix of the data, in the order a backtracking matcher
  finds them: the groups matched and the data left over.
\<close>

fun matches :: "item list \<Rightarrow> string \<Rightarrow> ((char \<times> string) list \<times> string) list" where
  "matches [] s = [([], s)]"
| "matches (Lit c # its) s =
     (case s of [] \<Rightarrow> [] | x # r \<Rightarrow> if same_letter c x then matches its r else [])"
| "matches (Dir d # its) s =
     concat (map (\<lambda>alt. case match_alt alt s of
                           None \<Rightarrow> []
                         | Some (m, r) \<Rightarrow> map (\<lambda>(env, r'). ((d, m) # env, r')) (matches its r))
                 (case directive d of None \<Rightarrow> [] | Some alts \<Rightarrow> alts))"

definition digit_val :: "char \<Rightarrow> nat" where
  "digit_val c = (case map_of (zip D [0, 1, 2, 3, 4, 5, 6, 7, 8, 9]) c of Some n \<Rightarrow> n | None \<Rightarrow> 0)"

text \<open>\<open>int(s)\<close> on a matched group: decimal digits, after an optional leading blank.\<close>

definition int_of_group :: "string \<Rightarrow> nat" where
  "int_of_group s = foldl (\<lambda>n c. 10 * n + digit_val c) 0 (filter (\<lambda>c. c \<in> set D) s)"

definition group :: "(char \<times> string) list \<Rightarrow> char \<Rightarrow> nat \<Rightarrow> nat" where
  "group env k dflt = (case map_of env k of None \<Rightarrow> dflt | Some s \<Rightarrow> int_of_group s)"

definition is_leap :: "nat \<Rightarrow> bool" where
  "is_leap y = (y mod 4 = 0 \<and> (y mod 100 \<noteq> 0 \<or> y mod 400 = 0))"

definition days_in_month :: "nat \<Rightarrow> nat \<Rightarrow> nat" where
  "days_in_month y m =
     (if m = 2 then (if is_leap y then 29 else 28)
      else if m \<in> {4, 6, 9, 11} then 30 else 31)"

text \<open>\<open>None\<close> is the \<open>ValueError\<close> that strptime raises; its message is never read.\<close>

definition strptime :: "string \<Rightarrow> string \<Rightarrow> datetime option" where
  "strptime data_string format =
     (case compile_format format of
        None \<Rightarrow> None
      | Some its \<Rightarrow>
          (case matches its data_string of
             [] \<Rightarrow> None
           | (env, rest) # other \<Rightarrow>
               if rest \<noteq> [] then None
               else
                 let y = group env (CHR ''Y'') 1900; m = group env (CHR ''m'') 1;
                     d = group env (CHR ''d'') 1; hh = group env (CHR ''H'') 0;
                     mm = group env (CHR ''M'') 0; ss = group env (CHR ''S'') 0
                 in if 1 \<le> y \<and> 1 \<le> m \<and> m \<le> 12 \<and> 1 \<le> d \<and> d \<le> days_in_month y m
                       \<and> hh \<le> 23 \<and> mm \<le> 59 \<and> ss \<le> 59
                    then Some \<lparr>year = y, month = m, day = d, hour = hh, minute = mm,
                                second = ss, microsecond = 0\<rparr>
                    else None))"

section \<open>parse_expiry\<close>

definition EXPIRY_ANNOTATION :: string where
  "EXPIRY_ANNOTATION = ''janitor/expires''"

definition DATETIME_PATTERNS :: "string list" where
  "DATETIME_PATTERNS = [''%Y-%m-%dT%H:%M:%SZ'', ''%Y-%m-%dT%H:%M'', ''%Y-%m-%d'']"

text \<open>The \<open>for pattern in DATETIME_PATTERNS\<close> loop: the first pattern that parses returns.\<close>

fun try_patterns :: "string \<Rightarrow> string list \<Rightarrow> datetime option" where
  "try_patterns expiry [] = None"
| "try_patterns expiry (pattern # patterns) =
     (case strptime expiry pattern of
        Some d \<Rightarrow> Some (replace_tzinfo_None d)
      | None \<Rightarrow> try_patterns expiry patterns)"

definition no_match_message :: "string \<Rightarrow> string" where
  "no_match_message expiry =
     ''expiry value '' @ [CHR 0x22] @ expiry @ [CHR 0x22]
       @ '' does not match format 2022-01-01T13:23:54Z, 2022-01-01T13:23, or 2022-01-01''"

definition parse_expiry :: "string \<Rightarrow> exn + datetime" where
  "parse_expiry expiry =
     (case try_patterns expiry DATETIME_PATTERNS of
        Some d \<Rightarrow> Inr d
      | None \<Rightarrow> Inl (ValueError (no_match_message expiry)))"

section \<open>Dictionaries and counters\<close>

text \<open>
  A \<open>dict\<close> keeps its keys in insertion order: an association list without duplicate
  keys. \<open>d[k] = v\<close> replaces the value of a key in place or appends a new key.
\<close>

type_synonym counter = "(string \<times> int) list"

fun dict_set :: "'k \<Rightarrow> 'v \<Rightarrow> ('k \<times> 'v) list \<Rightarrow> ('k \<times> 'v) list" where
  "dict_set k v [] = [(k, v)]"
| "dict_set k v ((k', v') # kvs) =
     (if k' = k then (k, v) # kvs else (k', v') # dict_set k v kvs)"

definition dict_get :: "('k \<times> 'v) list \<Rightarrow> 'k \<Rightarrow> 'v \<Rightarrow> 'v" where
  "dict_get kvs k dflt = (case map_of kvs k of None \<Rightarrow> dflt | Some v \<Rightarrow> v)"

text \<open>\<open>Counter.update(d)\<close> adds the counts of \<open>d\<close> to the counter, key by key.\<close>

fun Counter_update :: "counter \<Rightarrow> counter \<Rightarrow> counter" where
  "Counter_update c [] = c"
| "Counter_update c ((k, v) # kvs) = Counter_update (dict_set k (dict_get c k 0 + v) c) kvs"

section \<open>Resources, the cluster behind the client, the clock and the log\<close>

record object_meta =
  name :: string
  annotations :: "(string \<times> string) list option"

text \<open>
  A TrainingPortal as the dynamic client returns it. \<open>attr_name\<close> is what the attribute
  access \<open>trainingportal.name\<close> gives (line 111 reads it, not \<open>metadata.name\<close>).
\<close>

record trainingportal =
  attr_name :: "string option"
  metadata :: object_meta

definition str_opt :: "string option \<Rightarrow> string" where
  "str_opt v = (case v of None \<Rightarrow> ''None'' | Some s \<Rightarrow> s)"

datatype level = DEBUG | INFO | ERROR

text \<open>
  What the program does to the outside, in order: a logging call with its level and
  message, a delete request sent through the resource client, the construction of the
  API client with its \<open>configuration\<close> argument, and a sleep that \<open>time.sleep\<close>
  began (a call that raised instead is no event).
\<close>

type_synonym config_obj = string

datatype event =
  Log level string
| DeleteRequest string
| ApiClient "config_obj option"
| Sleep int

text \<open>
  Modelled from the spec: the module \<open>trainingportal_janitor.shutdown\<close> is not among the
  sources. A shutdown signal sets a flag that is observed after each run and during the
  sleep between runs; a signal that arrives during the sleep interrupts it and the
  process exits. \<open>signals w n\<close> says whether and when a signal arrives in the n-th
  iteration from now.
\<close>

datatype signal = Quiet | During_run | During_sleep

text \<open>
  The world the program runs in: the state \<open>'c\<close> of the cluster and of whatever else
  the kubernetes package reads, the values the coming calls of \<open>utcnow()\<close> return, the
  signals of the coming iterations, and the events so far.
\<close>

record 'c world =
  cluster :: 'c
  clock :: "nat \<Rightarrow> datetime"
  signals :: "nat \<Rightarrow> signal"
  trace :: "event list"

definition utcnow :: "'c world \<Rightarrow> datetime \<times> 'c world" where
  "utcnow w = (clock w 0, w\<lparr>clock := (\<lambda>n. clock w (Suc n))\<rparr>)"

definition emit :: "event \<Rightarrow> 'c world \<Rightarrow> 'c world" where
  "emit e w = w\<lparr>trace := trace w @ [e]\<rparr>"

definition log :: "level \<Rightarrow> string \<Rightarrow> 'c world \<Rightarrow> 'c world" where
  "log lvl msg w = emit (Log lvl msg) w"

text \<open>
  The resource client of one kind (\<open>trainingportal_api\<close>): \<open>get()\<close> lists the resources
  or raises, \<open>delete(name=...)\<close> returns or raises (\<open>Some e\<close>); both may change the cluster.
\<close>

record 'c resource_api =
  api_get :: "'c \<Rightarrow> (exn + trainingportal list) \<times> 'c"
  api_delete :: "string \<Rightarrow> 'c \<Rightarrow> exn option \<times> 'c"

record 'c dynamic_client =
  resources_get :: "string \<Rightarrow> string \<Rightarrow> 'c \<Rightarrow> (exn + 'c resource_api) \<times> 'c"

text \<open>The functions of the kubernetes package that main.py calls.\<close>

record 'c kubernetes =
  load_incluster_config :: "'c \<Rightarrow> exn + config_obj"
  load_kube_config :: "'c \<Rightarrow> exn + config_obj"
  DynamicClient :: "config_obj option \<Rightarrow> 'c \<Rightarrow> (exn + 'c dynamic_client) \<times> 'c"

section \<open>delete\<close>

definition dry_run_message :: "string \<Rightarrow> string" where
  "dry_run_message n = ''**DRY-RUN**: would delete TrainingPortal '' @ n"

definition deleting_message :: "string \<Rightarrow> string" where
  "deleting_message n = ''Deleting TrainingPortal '' @ n @ ''..''"

definition could_not_delete_message :: "string \<Rightarrow> exn \<Rightarrow> string" where
  "could_not_delete_message n e = ''Could not delete TrainingPortal '' @ n @ '': '' @ str_exn e"

definition delete :: "'c resource_api \<Rightarrow> trainingportal \<Rightarrow> bool \<Rightarrow> 'c world \<Rightarrow> 'c world" where
  "delete trainingportal_api resource dry_run w =
     (if dry_run then log INFO (dry_run_message (name (metadata resource))) w
      else
        let w1 = log INFO (deleting_message (name (metadata resource))) w;
            w2 = emit (DeleteRequest (name (metadata resource))) w1
        in case api_delete trainingportal_api (name (metadata resource)) (cluster w2) of
             (None, c) \<Rightarrow> w2\<lparr>cluster := c\<rparr>
           | (Some e, c) \<Rightarrow>
               log ERROR (could_not_delete_message (name (metadata resource)) e)
                   (w2\<lparr>cluster := c\<rparr>))"

section \<open>handle_trainingportal_expiry\<close>

definition with_expiry_key :: string where
  "with_expiry_key = ''trainingportal-with-expiry''"

definition deleted_key :: string where
  "deleted_key = ''trainingportal-deleted''"

definition ignoring_message :: "trainingportal \<Rightarrow> exn \<Rightarrow> string" where
  "ignoring_message trainingportal e =
     ''Ignoring invalid expiry date on TrainingPortal '' @ str_opt (attr_name trainingportal)
       @ '': '' @ str_exn e"

definition expired_message :: "trainingportal \<Rightarrow> string \<Rightarrow> string" where
  "expired_message trainingportal expiry =
     ''TrainingPortal '' @ name (metadata trainingportal) @ '' expired on '' @ expiry
       @ '' and will be deleted (annotation '' @ EXPIRY_ANNOTATION @ '' is set)''"

definition pending_message :: "trainingportal \<Rightarrow> string \<Rightarrow> string" where
  "pending_message trainingportal expiry =
     ''TrainingPortal '' @ name (metadata trainingportal) @ '' will expire on '' @ expiry"

text \<open>
  Line 104: \<open>annotations.get(EXPIRY_ANNOTATION) if annotations else None\<close>. A missing and
  an empty annotation map are both false.
\<close>

definition expiry_of :: "trainingportal \<Rightarrow> string option" where
  "expiry_of trainingportal =
     (case annotations (metadata trainingportal) of
        None \<Rightarrow> None
      | Some anns \<Rightarrow> if anns \<noteq> [] then map_of anns EXPIRY_ANNOTATION else None)"

text \<open>
  The function returns its dictionary, or raises what \<open>except ValueError\<close> does not catch.
  The debug message of line 122 goes to the root logger (\<open>logging.debug\<close>); the log of
  the model does not tell the loggers apart.
\<close>

definition handle_trainingportal_expiry ::
  "'c resource_api \<Rightarrow> trainingportal \<Rightarrow> bool \<Rightarrow> 'c world \<Rightarrow> (exn + counter) \<times> 'c world" where
  "handle_trainingportal_expiry trainingportal_api trainingportal dry_run w =
     (let counter = [] in
      case expiry_of trainingportal of
        None \<Rightarrow> (Inr counter, w)
      | Some expiry \<Rightarrow>
          if expiry = [] then (Inr counter, w)
          else
            (case parse_expiry expiry of
               Inl (ValueError m) \<Rightarrow>
                 (Inr counter, log INFO (ignoring_message trainingportal (ValueError m)) w)
             | Inl (Exception m) \<Rightarrow> (Inl (Exception m), w)
             | Inr expiry_timestamp \<Rightarrow>
                 let counter = dict_set with_expiry_key 1 counter;
                     (now, w1) = utcnow w
                 in if datetime_gt now expiry_timestamp then
                      let w2 = log INFO (expired_message trainingportal expiry) w1;
                          w3 = delete trainingportal_api trainingportal dry_run w2;
                          counter = dict_set deleted_key 1 counter
                      in (Inr counter, w3)
                    else (Inr counter, log DEBUG (pending_message trainingportal expiry) w1)))"

section \<open>sweep_objects\<close>

text \<open>
  The \<open>for trainingportal in trainingportals.items\<close> loop. An exception of the body would
  leave the loop; the counter is the caller's \<open>Counter\<close>, updated after each resource.
\<close>

fun sweep_loop ::
  "'c resource_api \<Rightarrow> bool \<Rightarrow> trainingportal list \<Rightarrow> counter \<Rightarrow> 'c world
     \<Rightarrow> (exn + counter) \<times> 'c world" where
  "sweep_loop trainingportal_api dry_run [] counter w = (Inr counter, w)"
| "sweep_loop trainingportal_api dry_run (trainingportal # rest) counter w =
     (case handle_trainingportal_expiry trainingportal_api trainingportal dry_run w of
        (Inl e, w1) \<Rightarrow> (Inl e, w1)
      | (Inr c, w1) \<Rightarrow> sweep_loop trainingportal_api dry_run rest (Counter_update counter c) w1)"

definition listing_message :: "string \<Rightarrow> string" where
  "listing_message tp_api_version = ''Listing '' @ tp_api_version @ '' training portals''"

definition sweep_objects ::
  "'c dynamic_client \<Rightarrow> string \<Rightarrow> counter \<Rightarrow> bool \<Rightarrow> 'c world \<Rightarrow> (exn + counter) \<times> 'c world" where
  "sweep_objects client tp_api_version counter dry_run w =
     (case resources_get client tp_api_version ''TrainingPortal'' (cluster w) of
        (Inl e, c1) \<Rightarrow> (Inl e, w\<lparr>cluster := c1\<rparr>)
      | (Inr trainingportal_api, c1) \<Rightarrow>
          let w1 = log DEBUG (listing_message tp_api_version) (w\<lparr>cluster := c1\<rparr>)
          in case api_get trainingportal_api (cluster w1) of
               (Inl e, c2) \<Rightarrow> (Inl e, w1\<lparr>cluster := c2\<rparr>)
             | (Inr trainingportals, c2) \<Rightarrow>
                 sweep_loop trainingportal_api dry_run trainingportals counter
                   (w1\<lparr>cluster := c2\<rparr>))"

section \<open>get_in_cluster_with_fallback\<close>

text \<open>
  The function assigns what the loaders return to the local \<open>config_obj\<close> and ends
  without a \<open>return\<close> statement: its value is \<open>None\<close>.
\<close>

definition get_in_cluster_with_fallback ::
  "'c kubernetes \<Rightarrow> 'c world \<Rightarrow> (exn + config_obj option) \<times> 'c world" where
  "get_in_cluster_with_fallback k w =
     (let config_obj = (None :: config_obj option);
          w1 = log DEBUG ''Attempting to load in cluster config'' w
      in case load_incluster_config k (cluster w1) of
           Inr v \<Rightarrow> (let config_obj = Some v in (Inr None, w1))
         | Inl e \<Rightarrow>
             let w2 = log DEBUG (''Couldn'' @ [CHR 0x27] @ ''t load in cluster config: ''
                                   @ str_exn e) w1;
                 w3 = log DEBUG ''Attempting to load local client config'' w2
             in case load_kube_config k (cluster w3) of
                  Inl e' \<Rightarrow> (Inl e', w3)
                | Inr v \<Rightarrow> (let config_obj = Some v in (Inr None, w3)))"

section \<open>main\<close>

text \<open>The parsed command line (\<open>get_cmd_parser\<close>); \<open>--interval\<close> is any integer.\<close>

record args =
  args_dry_run :: bool
  args_verbose :: bool
  args_once :: bool
  args_interval :: int

function str_nat :: "nat \<Rightarrow> string" where
  "str_nat n = (if n < 10 then [D ! n] else str_nat (n div 10) @ [D ! (n mod 10)])"
  by pat_completeness auto
termination
  by (relation "measure id") auto

declare str_nat.simps [simp del]

definition str_int :: "int \<Rightarrow> string" where
  "str_int i = (if i < 0 then ''-'' @ str_nat (nat (- i)) else str_nat (nat i))"

definition str_bool :: "bool \<Rightarrow> string" where
  "str_bool b = (if b then ''True'' else ''False'')"

fun join :: "string \<Rightarrow> string list \<Rightarrow> string" where
  "join sep [] = []"
| "join sep [x] = x"
| "join sep (x # y # ys) = x @ sep @ join sep (y # ys)"

definition config_str :: "args \<Rightarrow> string" where
  "config_str a =
     join '', '' [''dry_run='' @ str_bool (args_dry_run a),
                  ''interval='' @ str_int (args_interval a),
                  ''once='' @ str_bool (args_once a),
                  ''verbose='' @ str_bool (args_verbose a)]"

definition stats :: "counter \<Rightarrow> string" where
  "stats counter = join '', '' (map (\<lambda>(k, v). k @ ''='' @ str_int v) counter)"

definition failed_message :: "exn \<Rightarrow> string" where
  "failed_message e = ''Failed while running clean up loop: '' @ str_exn e"

text \<open>
  Lines 34 to 46, the \<open>try\<close> block with its \<open>except Exception\<close>: every exception of the
  block ends in a call of \<open>logger.exception\<close> (level ERROR).
\<close>

definition clean_up_run :: "'c kubernetes \<Rightarrow> args \<Rightarrow> 'c world \<Rightarrow> 'c world" where
  "clean_up_run k a w =
     (let counter = [] in
      case get_in_cluster_with_fallback k w of
        (Inl e, w1) \<Rightarrow> log ERROR (failed_message e) w1
      | (Inr configuration, w1) \<Rightarrow>
          let w2 = emit (ApiClient configuration) w1
          in case DynamicClient k configuration (cluster w2) of
               (Inl e, c) \<Rightarrow> log ERROR (failed_message e) (w2\<lparr>cluster := c\<rparr>)
             | (Inr client, c) \<Rightarrow>
                 (case sweep_objects client ''training.educates.dev/v1beta1'' counter
                         (args_dry_run a) (w2\<lparr>cluster := c\<rparr>) of
                    (Inl e, w3) \<Rightarrow> log ERROR (failed_message e) w3
                  | (Inr counter, w3) \<Rightarrow>
                      log INFO (''Clean up run completed: '' @ stats counter) w3))"

text \<open>
  How \<open>main\<close> ends: by its \<open>return\<close>, by the exit of the process when a signal arrives
  during the sleep, or by an exception that nothing catches.
\<close>

datatype ending = Returned | Exited | Raised exn

text \<open>
  \<open>time.sleep\<close>, a function of the standard library: \<open>None\<close> when it sleeps for its
  argument, \<open>Some e\<close> when it raises \<open>e\<close> instead, as it does for a negative argument
  and for one too large for the clock of the platform. Which arguments it refuses is the
  library's affair, so the loop takes the function as a parameter.
\<close>

type_synonym time_sleep = "int \<Rightarrow> exn option"

text \<open>
  Lines 33 to 50, the \<open>while True\<close> loop. \<open>handler.shutdown_now\<close> is read once per
  iteration, after the run. \<open>time.sleep\<close> is called outside the \<open>try\<close> block, so what it
  raises ends \<open>main\<close>. A loop that never ends has the value \<open>None\<close>.
\<close>

partial_function (option) main_loop ::
  "time_sleep \<Rightarrow> 'c kubernetes \<Rightarrow> args \<Rightarrow> 'c world \<Rightarrow> (ending \<times> 'c world) option" where
  "main_loop sleep k a w =
     (let w1 = clean_up_run k a w;
          sg = signals w1 0;
          w2 = w1\<lparr>signals := (\<lambda>n. signals w1 (Suc n))\<rparr>
      in if args_once a \<or> sg = During_run then Some (Returned, w2)
         else (case sleep (args_interval a) of
                 Some e \<Rightarrow> Some (Raised e, w2)
               | None \<Rightarrow>
                   if sg = During_sleep then Some (Exited, emit (Sleep (args_interval a)) w2)
                   else main_loop sleep k a (emit (Sleep (args_interval a)) w2)))"

declare main_loop.simps [code]

text \<open>\<open>main\<close> after \<open>parse_args\<close> and \<open>logging.basicConfig\<close>: lines 26 to 50.\<close>

definition main ::
  "time_sleep \<Rightarrow> 'c kubernetes \<Rightarrow> args \<Rightarrow> 'c world \<Rightarrow> (ending \<times> 'c world) option" where
  "main sleep k a w =
     (let w1 = log INFO (''TrainingPortal Janitor started with '' @ config_str a) w;
          w2 = (if args_dry_run a
                then log INFO ''**DRY-RUN**: no deletions will be performed!'' w1 else w1)
      in main_loop sleep k a w2)"

section \<open>Observations\<close>

text \<open>The delete requests of a trace, in the order they were sent.\<close>

definition delete_requests :: "event list \<Rightarrow> string list" where
  "delete_requests es = concat (map (\<lambda>e. case e of DeleteRequest n \<Rightarrow> [n] | _ \<Rightarrow> []) es)"

text \<open>The configurations the API client was constructed with.\<close>

definition configurations :: "event list \<Rightarrow> config_obj option list" where
  "configurations es = concat (map (\<lambda>e. case e of ApiClient c \<Rightarrow> [c] | _ \<Rightarrow> []) es)"


text \<open>What a call added to the trace of the world it started in.\<close>

definition new_events :: "'c world \<Rightarrow> 'c world \<Rightarrow> event list" where
  "new_events w w' = drop (length (trace w)) (trace w')"

text \<open>
  \<open>delete\<close> was entered for the resource named \<open>n\<close>: it begins with one of two log lines,
  which no other function writes.
\<close>

definition delete_started :: "string \<Rightarrow> event list \<Rightarrow> bool" where
  "delete_started n es =
     (Log INFO (dry_run_message n) \<in> set es \<or> Log INFO (deleting_message n) \<in> set es)"

text \<open>
  The decision that lines 104 to 116 of \<open>handle_trainingportal_expiry\<close> take on a resource
  when the clock reads \<open>now\<close>, as a value of the specification's ExpiryDecision.
\<close>

datatype expiry_decision = NoExpiry | Pending datetime | Expired datetime | Invalid string

definition decision :: "trainingportal \<Rightarrow> datetime \<Rightarrow> expiry_decision" where
  "decision trainingportal now =
     (case expiry_of trainingportal of
        None \<Rightarrow> NoExpiry
      | Some expiry \<Rightarrow>
          if expiry = [] then NoExpiry
          else (case parse_expiry expiry of
                  Inl e \<Rightarrow> Invalid (str_exn e)
                | Inr expiry_timestamp \<Rightarrow>
                    if datetime_gt now expiry_timestamp then Expired expiry_timestamp
                    else Pending expiry_timestamp))"

text \<open>
  The ExpiryDecision as the specification words it (section 4.1), to be compared with
  \<open>decision\<close>: no annotation is NoExpiry, a value that does not parse is Invalid, a parsed
  timestamp less than or equal to \<open>now\<close> is Expired and one greater than \<open>now\<close> is
  Pending.
\<close>

definition spec_decision :: "trainingportal \<Rightarrow> datetime \<Rightarrow> expiry_decision" where
  "spec_decision trainingportal now =
     (case expiry_of trainingportal of
        None \<Rightarrow> NoExpiry
      | Some expiry \<Rightarrow>
          (case parse_expiry expiry of
             Inl e \<Rightarrow> Invalid (str_exn e)
           | Inr expiry_timestamp \<Rightarrow>
               if datetime_gt expiry_timestamp now then Pending expiry_timestamp
               else Expired expiry_timestamp))"

fun is_Expired :: "expiry_decision \<Rightarrow> bool" where
  "is_Expired (Expired t) = True"
| "is_Expired d = False"

text \<open>\<open>utcnow()\<close> is called for the resources whose annotation parses, and only for them.\<close>

definition reads_clock :: "trainingportal \<Rightarrow> bool" where
  "reads_clock trainingportal =
     (case expiry_of trainingportal of
        None \<Rightarrow> False
      | Some expiry \<Rightarrow> expiry \<noteq> [] \<and> (case parse_expiry expiry of Inl e \<Rightarrow> False | Inr t \<Rightarrow> True))"

text \<open>
  The resources of a listing that are expired when their turn comes, the clock giving
  the successive values of \<open>utcnow()\<close>.
\<close>

fun expired_in_sweep :: "trainingportal list \<Rightarrow> (nat \<Rightarrow> datetime) \<Rightarrow> trainingportal list" where
  "expired_in_sweep [] clk = []"
| "expired_in_sweep (tp # tps) clk =
     (if is_Expired (decision tp (clk 0)) then [tp] else [])
       @ expired_in_sweep tps (if reads_clock tp then (\<lambda>n. clk (Suc n)) else clk)"

text \<open>
  \<open>grows P w w'\<close>: the world \<open>w'\<close> has the trace of \<open>w\<close> followed by events that all
  satisfy \<open>P\<close>, and the same signals to come.
\<close>

definition grows :: "(event \<Rightarrow> bool) \<Rightarrow> 'c world \<Rightarrow> 'c world \<Rightarrow> bool" where
  "grows P w w' = ((\<exists>es. trace w' = trace w @ es \<and> list_all P es) \<and> signals w' = signals w)"

text \<open>The events of handling resources: log lines and delete requests.\<close>

fun resource_event :: "event \<Rightarrow> bool" where
  "resource_event (Log l m) = True"
| "resource_event (DeleteRequest n) = True"
| "resource_event e = False"

text \<open>The events of a dry run: log lines only.\<close>

fun log_event :: "event \<Rightarrow> bool" where
  "log_event (Log l m) = True"
| "log_event e = False"

text \<open>The events of one run: no sleep, and no client built on a configuration.\<close>

fun run_event :: "event \<Rightarrow> bool" where
  "run_event (Sleep i) = False"
| "run_event (ApiClient c) = (c = None)"
| "run_event e = True"

text \<open>The events of the loop: sleeps too.\<close>

fun loop_event :: "event \<Rightarrow> bool" where
  "loop_event (ApiClient c) = (c = None)"
| "loop_event e = True"

text \<open>The same for the trace alone: the loop uses up the signals.\<close>

definition extends :: "(event \<Rightarrow> bool) \<Rightarrow> 'c world \<Rightarrow> 'c world \<Rightarrow> bool" where
  "extends P w w' = (\<exists>es. trace w' = trace w @ es \<and> list_all P es)"

text \<open>
  The world after the run of one iteration and the reading of \<open>handler.shutdown_now\<close>, and
  the world in which the next iteration starts, after the sleep.
\<close>

definition after_run :: "'c kubernetes \<Rightarrow> args \<Rightarrow> 'c world \<Rightarrow> 'c world" where
  "after_run k a w =
     (clean_up_run k a w)\<lparr>signals := (\<lambda>n. signals (clean_up_run k a w) (Suc n))\<rparr>"

definition after_sleep :: "'c kubernetes \<Rightarrow> args \<Rightarrow> 'c world \<Rightarrow> 'c world" where
  "after_sleep k a w = emit (Sleep (args_interval a)) (after_run k a w)"

section \<open>Concrete inputs\<close>

definition portal :: "string \<Rightarrow> (string \<times> string) list option \<Rightarrow> trainingportal" where
  "portal n anns = \<lparr>attr_name = None, metadata = \<lparr>name = n, annotations = anns\<rparr>\<rparr>"

definition at_midnight :: "nat \<Rightarrow> nat \<Rightarrow> nat \<Rightarrow> datetime" where
  "at_midnight y m d =
     \<lparr>year = y, month = m, day = d, hour = 0, minute = 0, second = 0, microsecond = 0\<rparr>"

text \<open>A world whose cluster is the list of the names deleted so far.\<close>

definition world_at :: "datetime \<Rightarrow> string list world" where
  "world_at now = \<lparr>cluster = [], clock = (\<lambda>n. now), signals = (\<lambda>n. Quiet), trace = []\<rparr>"

definition api_of :: "trainingportal list \<Rightarrow> string list resource_api" where
  "api_of tps = \<lparr>api_get = (\<lambda>c. (Inr tps, c)), api_delete = (\<lambda>n c. (None, c @ [n]))\<rparr>"

text \<open>A client whose delete requests are all refused.\<close>

definition failing_api_of :: "trainingportal list \<Rightarrow> string list resource_api" where
  "failing_api_of tps =
     \<lparr>api_get = (\<lambda>c. (Inr tps, c)), api_delete = (\<lambda>n c. (Some (Exception ''Forbidden''), c))\<rparr>"


definition client_of :: "string list resource_api \<Rightarrow> string list dynamic_client" where
  "client_of api = \<lparr>resources_get = (\<lambda>v kd c. (Inr api, c))\<rparr>"


definition kubernetes_of :: "string list resource_api \<Rightarrow> string list kubernetes" where
  "kubernetes_of api =
     \<lparr>load_incluster_config = (\<lambda>c. Inl (Exception ''Service host/port is not set.'')),
      load_kube_config = (\<lambda>c. Inr ''kube-config''),
      DynamicClient = (\<lambda>configuration c. (Inr (client_of api), c))\<rparr>"

definition in_cluster_kubernetes_of :: "string list resource_api \<Rightarrow> string list kubernetes" where
  "in_cluster_kubernetes_of api =
     \<lparr>load_incluster_config = (\<lambda>c. Inr ''in-cluster-config''),
      load_kube_config = (\<lambda>c. Inr ''kube-config''),
      DynamicClient = (\<lambda>configuration c. (Inr (client_of api), c))\<rparr>"

text \<open>
  \<open>time.sleep\<close> on whole seconds as CPython 3.11 has it on Linux: \<open>ValueError\<close> below
  zero, \<open>OSError\<close> at 9223372036 and \<open>OverflowError\<close> from 9223372037 on.
\<close>

definition py_time_sleep :: time_sleep where
  "py_time_sleep i =
     (if i < 0 then Some (ValueError ''sleep length must be non-negative'')
      else if 9223372037 \<le> i then
        Some (Exception ''timestamp too large to convert to C _PyTime_t'')
      else if i = 9223372036 then Some (Exception ''[Errno 22] Invalid argument'')
      else None)"

definition args_of :: "bool \<Rightarrow> bool \<Rightarrow> int \<Rightarrow> args" where
  "args_of dry_run once_flag i =
     \<lparr>args_dry_run = dry_run, args_verbose = False, args_once = once_flag, args_interval = i\<rparr>"

definition expiring_portal :: "string \<Rightarrow> string \<Rightarrow> trainingportal" where
  "expiring_portal n v = portal n (Some [(''janitor/expires'', v)])"

text \<open>A listing with an expired, an invalid, a pending, a bare and a second expired resource.\<close>

definition five_portals :: "trainingportal list" where
  "five_portals = [expiring_portal ''portal-a'' ''2022-01-01T13:23:54Z'',
                   expiring_portal ''portal-b'' ''not-a-date'',
                   expiring_portal ''portal-c'' ''2024-06-30'',
                   portal ''portal-d'' None,
                   expiring_portal ''portal-e'' ''2022-12-31T23:59'']"


section \<open>Basic facts\<close>

lemma trace_emit [simp]: "trace (emit e w) = trace w @ [e]"
  and cluster_emit [simp]: "cluster (emit e w) = cluster w"
  and clock_emit [simp]: "clock (emit e w) = clock w"
  and signals_emit [simp]: "signals (emit e w) = signals w"
  by (simp_all add: emit_def)

lemma trace_log [simp]: "trace (log l m w) = trace w @ [Log l m]"
  and cluster_log [simp]: "cluster (log l m w) = cluster w"
  and clock_log [simp]: "clock (log l m w) = clock w"
  and signals_log [simp]: "signals (log l m w) = signals w"
  by (simp_all add: log_def)

lemma utcnow_simps [simp]:
  "fst (utcnow w) = clock w 0"
  "trace (snd (utcnow w)) = trace w"
  "cluster (snd (utcnow w)) = cluster w"
  "signals (snd (utcnow w)) = signals w"
  "clock (snd (utcnow w)) = (\<lambda>n. clock w (Suc n))"
  by (simp_all add: utcnow_def)

lemma delete_requests_simps [simp]:
  "delete_requests [] = []"
  "delete_requests (xs @ ys) = delete_requests xs @ delete_requests ys"
  "delete_requests (Log l m # es) = delete_requests es"
  "delete_requests (DeleteRequest n # es) = n # delete_requests es"
  "delete_requests (ApiClient c # es) = delete_requests es"
  "delete_requests (Sleep i # es) = delete_requests es"
  by (simp_all add: delete_requests_def)

lemma new_events_append: "trace w' = trace w @ es \<Longrightarrow> new_events w w' = es"
  by (simp add: new_events_def)

text \<open>No datetime is later than itself.\<close>

lemma tuple_less_irrefl: "\<not> tuple_less xs xs"
  by (induction xs) auto

lemma datetime_gt_irrefl: "\<not> datetime_gt d d"
  by (simp add: datetime_gt_def tuple_less_irrefl)

text \<open>The only exception of \<open>parse_expiry\<close> is its own \<open>ValueError\<close>.\<close>

lemma parse_expiry_error: "parse_expiry e = Inl x \<Longrightarrow> x = ValueError (no_match_message e)"
  by (auto simp: parse_expiry_def split: option.splits)

lemma parse_expiry_empty: "parse_expiry [] = Inl (ValueError (no_match_message []))"
  by code_simp

lemma parse_expiry_nonempty: "parse_expiry e = Inr t \<Longrightarrow> e \<noteq> []"
  using parse_expiry_empty by auto

subsection \<open>What \<open>delete\<close> does\<close>

lemma delete_trace:
  "trace (delete api r dry w) = trace w @
     (if dry then [Log INFO (dry_run_message (name (metadata r)))]
      else [Log INFO (deleting_message (name (metadata r))), DeleteRequest (name (metadata r))]
           @ (case fst (api_delete api (name (metadata r)) (cluster w)) of
                None \<Rightarrow> []
              | Some e \<Rightarrow> [Log ERROR (could_not_delete_message (name (metadata r)) e)]))"
  by (simp add: delete_def Let_def split: prod.splits option.splits)

lemma delete_clock [simp]: "clock (delete api r dry w) = clock w"
  and delete_signals [simp]: "signals (delete api r dry w) = signals w"
  by (simp_all add: delete_def Let_def split: prod.splits option.splits)

lemma delete_cluster:
  "cluster (delete api r dry w) =
     (if dry then cluster w else snd (api_delete api (name (metadata r)) (cluster w)))"
  by (simp add: delete_def Let_def split: prod.splits option.splits)

subsection \<open>The four ways through \<open>handle_trainingportal_expiry\<close>\<close>

lemma handle_no_expiry:
  "expiry_of tp = None \<or> expiry_of tp = Some [] \<Longrightarrow>
   handle_trainingportal_expiry api tp dry w = (Inr [], w)"
  by (auto simp: handle_trainingportal_expiry_def)

lemma handle_invalid:
  "expiry_of tp = Some e \<Longrightarrow> e \<noteq> [] \<Longrightarrow> parse_expiry e = Inl x \<Longrightarrow>
   handle_trainingportal_expiry api tp dry w = (Inr [], log INFO (ignoring_message tp x) w)"
  by (frule parse_expiry_error) (simp add: handle_trainingportal_expiry_def)

lemma handle_pending:
  "expiry_of tp = Some e \<Longrightarrow> parse_expiry e = Inr t \<Longrightarrow> \<not> datetime_gt (clock w 0) t \<Longrightarrow>
   handle_trainingportal_expiry api tp dry w =
     (Inr [(with_expiry_key, 1)], log DEBUG (pending_message tp e) (snd (utcnow w)))"
  by (frule parse_expiry_nonempty) (simp add: handle_trainingportal_expiry_def utcnow_def)

lemma handle_expired:
  "expiry_of tp = Some e \<Longrightarrow> parse_expiry e = Inr t \<Longrightarrow> datetime_gt (clock w 0) t \<Longrightarrow>
   handle_trainingportal_expiry api tp dry w =
     (Inr [(with_expiry_key, 1), (deleted_key, 1)],
      delete api tp dry (log INFO (expired_message tp e) (snd (utcnow w))))"
  by (frule parse_expiry_nonempty)
     (simp add: handle_trainingportal_expiry_def utcnow_def with_expiry_key_def deleted_key_def)

section \<open>Claims\<close>

subsection \<open>Resources without an expiry\<close>

lemma expiry_of_absent:
  "annotations (metadata tp) = None \<or>
     (\<exists>anns. annotations (metadata tp) = Some anns \<and> map_of anns EXPIRY_ANNOTATION = None)
   \<Longrightarrow> expiry_of tp = None"
  by (auto simp: expiry_of_def)

text \<open>
  Claim C5. A resource whose annotation map is absent, or whose annotation map has no
  \<open>janitor/expires\<close> key, gets the decision NoExpiry: \<open>handle_trainingportal_expiry\<close>
  returns the empty summary and leaves the world as it found it, so nothing is logged,
  the clock is not read, \<open>delete\<close> is not entered and no request is sent.
\<close>

theorem C5_absent_annotation_is_skipped:
  assumes "annotations (metadata tp) = None \<or>
     (\<exists>anns. annotations (metadata tp) = Some anns \<and> map_of anns EXPIRY_ANNOTATION = None)"
  shows "handle_trainingportal_expiry api tp dry w = (Inr [], w) \<and> decision tp now = NoExpiry"
proof -
  from assms have "expiry_of tp = None" by (rule expiry_of_absent)
  then show ?thesis by (simp add: handle_no_expiry decision_def)
qed

theorem C5_witness:
  "annotations (metadata (portal ''portal-a'' (Some [(''owner'', ''team-a'')])))
     = Some [(''owner'', ''team-a'')]
   \<and> map_of [(''owner'', ''team-a'')] EXPIRY_ANNOTATION = None
   \<and> handle_trainingportal_expiry (api_of []) (portal ''portal-a'' (Some [(''owner'', ''team-a'')]))
        False (world_at (at_midnight 2023 1 1))
       = (Inr [], world_at (at_midnight 2023 1 1))"
proof -
  have h: "annotations (metadata (portal ''portal-a'' (Some [(''owner'', ''team-a'')])))
      = Some [(''owner'', ''team-a'')]
      \<and> map_of [(''owner'', ''team-a'')] EXPIRY_ANNOTATION = None"
    by (simp add: portal_def EXPIRY_ANNOTATION_def)
  then have "annotations (metadata (portal ''portal-a'' (Some [(''owner'', ''team-a'')]))) = None \<or>
     (\<exists>anns. annotations (metadata (portal ''portal-a'' (Some [(''owner'', ''team-a'')]))) = Some anns
        \<and> map_of anns EXPIRY_ANNOTATION = None)"
    by blast
  from C5_absent_annotation_is_skipped [OF this] h show ?thesis by blast
qed

text \<open>
  Claim C10. A resource whose \<open>janitor/expires\<close> annotation is the empty string is handled
  as one without the annotation: the empty summary, the world unchanged (no log line, so
  no report of an invalid date, and no deletion), and the same result as for the resource
  with its annotations taken away.
\<close>

theorem C10_empty_annotation_is_no_annotation:
  assumes "annotations (metadata tp) = Some anns" and "map_of anns EXPIRY_ANNOTATION = Some []"
  shows "handle_trainingportal_expiry api tp dry w = (Inr [], w)
     \<and> handle_trainingportal_expiry api tp dry w
         = handle_trainingportal_expiry api (tp\<lparr>metadata := (metadata tp)\<lparr>annotations := None\<rparr>\<rparr>) dry w
     \<and> decision tp now = NoExpiry"
proof -
  from assms have "anns \<noteq> []" by auto
  with assms have e: "expiry_of tp = Some []" by (simp add: expiry_of_def)
  have n: "expiry_of (tp\<lparr>metadata := (metadata tp)\<lparr>annotations := None\<rparr>\<rparr>) = None"
    by (simp add: expiry_of_def)
  from e n show ?thesis by (simp add: handle_no_expiry decision_def)
qed

theorem C10_witness:
  "annotations (metadata (expiring_portal ''portal-a'' [])) = Some [(''janitor/expires'', [])]
   \<and> map_of [(''janitor/expires'', [])] EXPIRY_ANNOTATION = Some []
   \<and> handle_trainingportal_expiry (api_of []) (expiring_portal ''portal-a'' []) False
        (world_at (at_midnight 2023 1 1)) = (Inr [], world_at (at_midnight 2023 1 1))"
proof -
  have h1: "annotations (metadata (expiring_portal ''portal-a'' [])) = Some [(''janitor/expires'', [])]"
    by (simp add: expiring_portal_def portal_def)
  have h2: "map_of [(''janitor/expires'', [])] EXPIRY_ANNOTATION = Some []"
    by (simp add: EXPIRY_ANNOTATION_def)
  from C10_empty_annotation_is_no_annotation [OF h1 h2] h1 h2 show ?thesis by blast
qed

subsection \<open>The order of datetimes, and what a parsed expiry leads to\<close>

lemma tuple_less_total: "length xs = length ys \<Longrightarrow> tuple_less xs ys \<or> xs = ys \<or> tuple_less ys xs"
  by (induction xs ys rule: list_induct2) auto

lemma datetime_gt_total: "datetime_gt a b \<or> a = b \<or> datetime_gt b a"
proof -
  have "length (timetuple b) = length (timetuple a)" by (simp add: timetuple_def)
  from tuple_less_total [OF this]
  show ?thesis by (auto simp: datetime_gt_def timetuple_def)
qed

lemma tuple_less_asym: "tuple_less xs ys \<Longrightarrow> \<not> tuple_less ys xs"
  by (induction xs ys rule: tuple_less.induct) auto

lemma datetime_gt_asym: "datetime_gt a b \<Longrightarrow> \<not> datetime_gt b a"
  by (simp add: datetime_gt_def tuple_less_asym)

lemma not_started_debug: "\<not> delete_started n [Log DEBUG m]"
  by (simp add: delete_started_def)

lemma handle_expired_events:
  assumes "expiry_of tp = Some e" and "parse_expiry e = Inr t" and "datetime_gt (clock w 0) t"
  shows "new_events w (snd (handle_trainingportal_expiry api tp dry w)) =
     Log INFO (expired_message tp e) #
     (if dry then [Log INFO (dry_run_message (name (metadata tp)))]
      else [Log INFO (deleting_message (name (metadata tp))), DeleteRequest (name (metadata tp))]
           @ (case fst (api_delete api (name (metadata tp)) (cluster w)) of
                None \<Rightarrow> []
              | Some x \<Rightarrow> [Log ERROR (could_not_delete_message (name (metadata tp)) x)]))"
  by (rule new_events_append) (simp add: handle_expired [OF assms] delete_trace)

lemma handle_pending_events:
  assumes "expiry_of tp = Some e" and "parse_expiry e = Inr t" and "\<not> datetime_gt (clock w 0) t"
  shows "new_events w (snd (handle_trainingportal_expiry api tp dry w)) = [Log DEBUG (pending_message tp e)]"
  by (rule new_events_append) (simp add: handle_pending [OF assms])

lemma decision_parsed:
  assumes "expiry_of tp = Some e" and "parse_expiry e = Inr t"
  shows "decision tp now = (if datetime_gt now t then Expired t else Pending t)"
  using assms parse_expiry_nonempty [OF assms(2)] by (simp add: decision_def)

lemma expiry_of_expiring_portal: "v \<noteq> [] \<Longrightarrow> expiry_of (expiring_portal n v) = Some v"
  by (simp add: expiry_of_def expiring_portal_def portal_def EXPIRY_ANNOTATION_def)

lemma parse_full: "parse_expiry ''2022-01-01T13:23:54Z'' =
   Inr \<lparr>year = 2022, month = 1, day = 1, hour = 13, minute = 23, second = 54, microsecond = 0\<rparr>"
  by code_simp

subsection \<open>Expired or pending\<close>

text \<open>
  Claim C1, as amended. For an annotation value that parses to the timestamp \<open>t\<close>, the
  resource is Expired, and \<open>delete\<close> is entered for it, if and only if \<open>now > t\<close>, that
  is if \<open>t\<close> is strictly before the value \<open>utcnow()\<close> returns; otherwise it is Pending:
  \<open>delete\<close> is not entered, no request is sent and the cluster is unchanged. Pending
  is the case of a timestamp equal to \<open>now\<close> or later than it.
\<close>

theorem C1_expired_iff_timestamp_before_now:
  assumes "expiry_of tp = Some e" and "parse_expiry e = Inr t"
  shows "decision tp (clock w 0) = (if datetime_gt (clock w 0) t then Expired t else Pending t)
    \<and> (datetime_gt (clock w 0) t \<longrightarrow>
         delete_started (name (metadata tp))
           (new_events w (snd (handle_trainingportal_expiry api tp dry w))))
    \<and> (\<not> datetime_gt (clock w 0) t \<longrightarrow>
         (\<forall>n. \<not> delete_started n (new_events w (snd (handle_trainingportal_expiry api tp dry w))))
         \<and> delete_requests (new_events w (snd (handle_trainingportal_expiry api tp dry w))) = []
         \<and> cluster (snd (handle_trainingportal_expiry api tp dry w)) = cluster w)
    \<and> (clock w 0 = t \<longrightarrow> decision tp (clock w 0) = Pending t)
    \<and> (\<not> datetime_gt (clock w 0) t) = (clock w 0 = t \<or> datetime_gt t (clock w 0))"
proof (intro conjI impI)
  show "decision tp (clock w 0) = (if datetime_gt (clock w 0) t then Expired t else Pending t)"
    by (rule decision_parsed [OF assms])
next
  assume "datetime_gt (clock w 0) t"
  then show "delete_started (name (metadata tp))
           (new_events w (snd (handle_trainingportal_expiry api tp dry w)))"
    by (simp add: handle_expired_events [OF assms] delete_started_def)
next
  assume p: "\<not> datetime_gt (clock w 0) t"
  show "\<forall>n. \<not> delete_started n (new_events w (snd (handle_trainingportal_expiry api tp dry w)))"
    by (simp add: handle_pending_events [OF assms p] not_started_debug)
  show "delete_requests (new_events w (snd (handle_trainingportal_expiry api tp dry w))) = []"
    by (simp add: handle_pending_events [OF assms p])
  show "cluster (snd (handle_trainingportal_expiry api tp dry w)) = cluster w"
    by (simp add: handle_pending [OF assms p])
next
  assume "clock w 0 = t"
  then show "decision tp (clock w 0) = Pending t"
    by (simp add: decision_parsed [OF assms] datetime_gt_irrefl)
next
  show "(\<not> datetime_gt (clock w 0) t) = (clock w 0 = t \<or> datetime_gt t (clock w 0))"
    using datetime_gt_total [of "clock w 0" t] datetime_gt_asym [of "clock w 0" t]
      datetime_gt_irrefl [of t]
    by auto
qed

theorem C1_witness:
  "expiry_of (expiring_portal ''portal-a'' ''2022-01-01T13:23:54Z'') = Some ''2022-01-01T13:23:54Z''
   \<and> parse_expiry ''2022-01-01T13:23:54Z''
       = Inr \<lparr>year = 2022, month = 1, day = 1, hour = 13, minute = 23, second = 54, microsecond = 0\<rparr>
   \<and> datetime_gt (clock (world_at (at_midnight 2023 1 1)) 0)
       \<lparr>year = 2022, month = 1, day = 1, hour = 13, minute = 23, second = 54, microsecond = 0\<rparr>
   \<and> delete_started ''portal-a''
       (new_events (world_at (at_midnight 2023 1 1))
          (snd (handle_trainingportal_expiry (api_of []) (expiring_portal ''portal-a'' ''2022-01-01T13:23:54Z'')
                  False (world_at (at_midnight 2023 1 1)))))
   \<and> expiry_of (expiring_portal ''portal-c'' ''2024-06-30'') = Some ''2024-06-30''
   \<and> parse_expiry ''2024-06-30'' = Inr (at_midnight 2024 6 30)
   \<and> \<not> datetime_gt (clock (world_at (at_midnight 2023 1 1)) 0) (at_midnight 2024 6 30)
   \<and> delete_requests
       (new_events (world_at (at_midnight 2023 1 1))
          (snd (handle_trainingportal_expiry (api_of []) (expiring_portal ''portal-c'' ''2024-06-30'')
                  False (world_at (at_midnight 2023 1 1))))) = []
   \<and> clock (world_at (at_midnight 2024 6 30)) 0 = at_midnight 2024 6 30
   \<and> decision (expiring_portal ''portal-c'' ''2024-06-30'') (clock (world_at (at_midnight 2024 6 30)) 0)
       = Pending (at_midnight 2024 6 30)"
proof -
  let ?pa = "expiring_portal ''portal-a'' ''2022-01-01T13:23:54Z''"
  let ?pc = "expiring_portal ''portal-c'' ''2024-06-30''"
  let ?wd = "world_at (at_midnight 2023 1 1)"
  let ?we = "world_at (at_midnight 2024 6 30)"
  have h1: "expiry_of ?pa = Some ''2022-01-01T13:23:54Z''"
    by (simp add: expiry_of_expiring_portal)
  have h3: "datetime_gt (clock ?wd 0)
       \<lparr>year = 2022, month = 1, day = 1, hour = 13, minute = 23, second = 54, microsecond = 0\<rparr>"
    by (simp add: world_at_def at_midnight_def datetime_gt_def timetuple_def)
  have n: "name (metadata ?pa) = ''portal-a''"
    by (simp add: expiring_portal_def portal_def)
  have k1: "expiry_of ?pc = Some ''2024-06-30''"
    by (simp add: expiry_of_expiring_portal)
  have k2: "parse_expiry ''2024-06-30'' = Inr (at_midnight 2024 6 30)"
    by code_simp
  have k3: "\<not> datetime_gt (clock ?wd 0) (at_midnight 2024 6 30)"
    by (simp add: world_at_def at_midnight_def datetime_gt_def timetuple_def)
  have k4: "clock ?we 0 = at_midnight 2024 6 30"
    by (simp add: world_at_def)
  note a = C1_expired_iff_timestamp_before_now [OF h1 parse_full, where w = ?wd and api = "api_of []"
             and dry = False, THEN conjunct2, THEN conjunct1, THEN mp, OF h3]
  note b = C1_expired_iff_timestamp_before_now [OF k1 k2, where w = ?wd and api = "api_of []"
             and dry = False, THEN conjunct2, THEN conjunct2, THEN conjunct1, THEN mp, OF k3]
  note c = C1_expired_iff_timestamp_before_now [OF k1 k2, where w = ?we and api = "api_of []"
             and dry = False, THEN conjunct2, THEN conjunct2, THEN conjunct2, THEN conjunct1,
             THEN mp, OF k4]
  from a b c h1 parse_full h3 n k1 k2 k3 k4 show ?thesis by simp
qed

text \<open>
  The claim as stated fails where the timestamp equals \<open>now\<close>: the annotation
  \<open>2022-01-01\<close> read at 2022-01-01 00:00:00.000000 is Pending and nothing is deleted.
\<close>

theorem C1_counterexample:
  "parse_expiry ''2022-01-01'' = Inr (at_midnight 2022 1 1)
   \<and> clock (world_at (at_midnight 2022 1 1)) 0 = at_midnight 2022 1 1
   \<and> decision (expiring_portal ''portal-a'' ''2022-01-01'') (at_midnight 2022 1 1)
       = Pending (at_midnight 2022 1 1)
   \<and> fst (handle_trainingportal_expiry (api_of []) (expiring_portal ''portal-a'' ''2022-01-01'')
            False (world_at (at_midnight 2022 1 1)))
       = Inr [(''trainingportal-with-expiry'', 1)]
   \<and> trace (snd (handle_trainingportal_expiry (api_of []) (expiring_portal ''portal-a'' ''2022-01-01'')
            False (world_at (at_midnight 2022 1 1))))
       = [Log DEBUG ''TrainingPortal portal-a will expire on 2022-01-01'']
   \<and> cluster (snd (handle_trainingportal_expiry (api_of []) (expiring_portal ''portal-a'' ''2022-01-01'')
            False (world_at (at_midnight 2022 1 1)))) = []"
  by code_simp

subsection \<open>Traces only grow\<close>

lemma grows_refl: "grows P w w"
  by (simp add: grows_def)

lemma grows_trans: "grows P w w' \<Longrightarrow> grows P w' w'' \<Longrightarrow> grows P w w''"
  by (auto simp: grows_def)

lemma grows_mono: "(\<And>e. P e \<Longrightarrow> Q e) \<Longrightarrow> grows P w w' \<Longrightarrow> grows Q w w'"
  by (auto simp: grows_def list_all_iff)

lemma grows_emit: "P e \<Longrightarrow> grows P w (emit e w)"
  by (simp add: grows_def)

lemma grows_log: "P (Log l m) \<Longrightarrow> grows P w (log l m w)"
  by (simp add: grows_def)

lemma grows_cluster: "grows P w w' \<Longrightarrow> grows P w (w'\<lparr>cluster := c\<rparr>)"
  by (simp add: grows_def)

lemma grows_utcnow: "grows P w (snd (utcnow w))"
  by (simp add: grows_def)

lemma grows_new_events:
  "grows P w w' \<Longrightarrow> trace w' = trace w @ new_events w w' \<and> list_all P (new_events w w')"
  by (auto simp: grows_def new_events_def)

lemma new_events_trans:
  "grows P w w' \<Longrightarrow> grows Q w' w'' \<Longrightarrow> new_events w w'' = new_events w w' @ new_events w' w''"
  by (auto simp: grows_def new_events_def)

lemma new_events_self [simp]: "new_events w w = []"
  by (simp add: new_events_def)


lemma resource_events_quiet: "resource_event e \<Longrightarrow> run_event e"
  by (cases e) simp_all

lemma log_events_resource: "log_event e \<Longrightarrow> resource_event e"
  by (cases e) simp_all

lemma run_events_loop: "run_event e \<Longrightarrow> loop_event e"
  by (cases e) simp_all

subsection \<open>\<open>delete\<close> and \<open>handle_trainingportal_expiry\<close> as steps\<close>

lemma grows_delete: "grows resource_event w (delete api r dry w)"
  by (simp add: grows_def delete_trace split: option.splits)

lemma grows_delete_dry: "grows log_event w (delete api r True w)"
  by (simp add: grows_def delete_trace)

lemma handle_cases [case_names none invalid pending expired]:
  obtains "expiry_of tp = None \<or> expiry_of tp = Some []"
  | e x where "expiry_of tp = Some e" and "e \<noteq> []" and "parse_expiry e = Inl x"
  | e t where "expiry_of tp = Some e" and "parse_expiry e = Inr t" and "\<not> datetime_gt now t"
  | e t where "expiry_of tp = Some e" and "parse_expiry e = Inr t" and "datetime_gt now t"
proof (cases "expiry_of tp")
  case None
  then show ?thesis using that(1) by simp
next
  case (Some e)
  show ?thesis
  proof (cases "e = []")
    case True
    with Some show ?thesis using that(1) by simp
  next
    case False
    show ?thesis
    proof (cases "parse_expiry e")
      case (Inl x)
      with Some False show ?thesis using that(2) by blast
    next
      case (Inr t)
      with Some show ?thesis using that(3,4) by blast
    qed
  qed
qed

lemma is_Expired_decision:
  "is_Expired (decision tp now) \<longleftrightarrow>
     (\<exists>e t. expiry_of tp = Some e \<and> parse_expiry e = Inr t \<and> datetime_gt now t)"
proof (cases rule: handle_cases [where tp = tp and now = now])
  case none
  then show ?thesis by (auto simp: decision_def parse_expiry_empty)
next
  case (invalid e x)
  then show ?thesis by (auto simp: decision_def)
next
  case (pending e t)
  then show ?thesis by (auto simp: decision_parsed)
next
  case (expired e t)
  then show ?thesis by (auto simp: decision_parsed)
qed

lemma handle_returns: "\<exists>c. fst (handle_trainingportal_expiry api tp dry w) = Inr c"
proof (cases rule: handle_cases [where tp = tp and now = "clock w 0"])
  case none
  then show ?thesis by (simp add: handle_no_expiry)
next
  case (invalid e x)
  then show ?thesis by (simp add: handle_invalid)
next
  case (pending e t)
  then show ?thesis by (simp add: handle_pending)
next
  case (expired e t)
  then show ?thesis by (simp add: handle_expired)
qed

lemma grows_handle: "grows resource_event w (snd (handle_trainingportal_expiry api tp dry w))"
proof (cases rule: handle_cases [where tp = tp and now = "clock w 0"])
  case none
  then show ?thesis by (simp add: handle_no_expiry grows_refl)
next
  case (invalid e x)
  then show ?thesis by (simp add: handle_invalid grows_log)
next
  case (pending e t)
  then show ?thesis by (simp add: handle_pending grows_def)
next
  case (expired e t)
  have "grows resource_event w (log INFO (expired_message tp e) (snd (utcnow w)))"
    by (simp add: grows_def)
  from grows_trans [OF this grows_delete] expired show ?thesis
    by (simp add: handle_expired)
qed

lemma grows_handle_dry: "grows log_event w (snd (handle_trainingportal_expiry api tp True w))"
proof (cases rule: handle_cases [where tp = tp and now = "clock w 0"])
  case none
  then show ?thesis by (simp add: handle_no_expiry grows_refl)
next
  case (invalid e x)
  then show ?thesis by (simp add: handle_invalid grows_log)
next
  case (pending e t)
  then show ?thesis by (simp add: handle_pending grows_def)
next
  case (expired e t)
  have "grows log_event w (log INFO (expired_message tp e) (snd (utcnow w)))"
    by (simp add: grows_def)
  from grows_trans [OF this grows_delete_dry] expired show ?thesis
    by (simp add: handle_expired)
qed

lemma handle_cluster_dry: "cluster (snd (handle_trainingportal_expiry api tp True w)) = cluster w"
proof (cases rule: handle_cases [where tp = tp and now = "clock w 0"])
  case none
  then show ?thesis by (simp add: handle_no_expiry)
next
  case (invalid e x)
  then show ?thesis by (simp add: handle_invalid)
next
  case (pending e t)
  then show ?thesis by (simp add: handle_pending)
next
  case (expired e t)
  then show ?thesis by (simp add: handle_expired delete_cluster)
qed

lemma handle_clock:
  "clock (snd (handle_trainingportal_expiry api tp dry w))
     = (if reads_clock tp then (\<lambda>n. clock w (Suc n)) else clock w)"
proof (cases rule: handle_cases [where tp = tp and now = "clock w 0"])
  case none
  then show ?thesis by (auto simp: handle_no_expiry reads_clock_def)
next
  case (invalid e x)
  then show ?thesis by (simp add: handle_invalid reads_clock_def)
next
  case (pending e t)
  then show ?thesis using parse_expiry_nonempty [OF pending(2)]
    by (simp add: handle_pending reads_clock_def)
next
  case (expired e t)
  then show ?thesis using parse_expiry_nonempty [OF expired(2)]
    by (simp add: handle_expired reads_clock_def)
qed

lemma started_ignoring: "\<not> delete_started n [Log INFO (ignoring_message tp x)]"
  by (simp add: delete_started_def ignoring_message_def dry_run_message_def deleting_message_def)

lemma handle_invalid_events:
  assumes "expiry_of tp = Some e" and "e \<noteq> []" and "parse_expiry e = Inl x"
  shows "new_events w (snd (handle_trainingportal_expiry api tp dry w)) = [Log INFO (ignoring_message tp x)]"
  by (rule new_events_append) (simp add: handle_invalid [OF assms])

lemma handle_requests:
  "delete_requests (new_events w (snd (handle_trainingportal_expiry api tp dry w)))
     = (if is_Expired (decision tp (clock w 0)) \<and> \<not> dry then [name (metadata tp)] else [])"
proof (cases rule: handle_cases [where tp = tp and now = "clock w 0"])
  case none
  then show ?thesis by (auto simp: handle_no_expiry decision_def)
next
  case (invalid e x)
  then show ?thesis by (simp add: handle_invalid_events decision_def)
next
  case (pending e t)
  then show ?thesis by (simp add: handle_pending_events decision_parsed)
next
  case (expired e t)
  then show ?thesis by (simp add: handle_expired_events decision_parsed split: option.splits)
qed

lemma handle_started:
  "(is_Expired (decision tp (clock w 0)) \<longrightarrow>
      delete_started (name (metadata tp)) (new_events w (snd (handle_trainingportal_expiry api tp dry w))))
   \<and> (\<not> is_Expired (decision tp (clock w 0)) \<longrightarrow>
      (\<forall>n. \<not> delete_started n (new_events w (snd (handle_trainingportal_expiry api tp dry w)))))"
proof (cases rule: handle_cases [where tp = tp and now = "clock w 0"])
  case none
  then show ?thesis by (auto simp: handle_no_expiry decision_def delete_started_def)
next
  case (invalid e x)
  then show ?thesis by (simp add: handle_invalid_events decision_def started_ignoring)
next
  case (pending e t)
  then show ?thesis by (simp add: handle_pending_events decision_parsed not_started_debug)
next
  case (expired e t)
  then show ?thesis by (simp add: handle_expired_events decision_parsed delete_started_def)
qed

subsection \<open>The loop over the listing\<close>

lemma sweep_loop_Cons:
  "fst (handle_trainingportal_expiry api tp dry w) = Inr c1 \<Longrightarrow>
   sweep_loop api dry (tp # tps) c w =
     sweep_loop api dry tps (Counter_update c c1) (snd (handle_trainingportal_expiry api tp dry w))"
  by (cases "handle_trainingportal_expiry api tp dry w") simp


lemma grows_sweep_loop: "grows resource_event w (snd (sweep_loop api dry tps c w))"
proof (induction tps arbitrary: c w)
  case Nil
  show ?case by (simp add: grows_refl)
next
  case (Cons tp tps)
  obtain c1 where h: "fst (handle_trainingportal_expiry api tp dry w) = Inr c1"
    using handle_returns by blast
  show ?case
    unfolding sweep_loop_Cons [OF h]
    by (rule grows_trans [OF grows_handle Cons.IH])
qed

lemma sweep_loop_cluster_dry: "cluster (snd (sweep_loop api True tps c w)) = cluster w"
proof (induction tps arbitrary: c w)
  case Nil
  show ?case by simp
next
  case (Cons tp tps)
  obtain c1 where h: "fst (handle_trainingportal_expiry api tp True w) = Inr c1"
    using handle_returns by blast
  show ?case
    unfolding sweep_loop_Cons [OF h] by (simp add: Cons.IH handle_cluster_dry)
qed

lemma sweep_loop_requests:
  "delete_requests (new_events w (snd (sweep_loop api dry tps c w)))
     = (if dry then [] else map (\<lambda>tp. name (metadata tp)) (expired_in_sweep tps (clock w)))"
proof (induction tps arbitrary: c w)
  case Nil
  show ?case by simp
next
  case (Cons tp tps)
  obtain c1 where h: "fst (handle_trainingportal_expiry api tp dry w) = Inr c1"
    using handle_returns by blast
  let ?w1 = "snd (handle_trainingportal_expiry api tp dry w)"
  have "new_events w (snd (sweep_loop api dry tps (Counter_update c c1) ?w1))
      = new_events w ?w1 @ new_events ?w1 (snd (sweep_loop api dry tps (Counter_update c c1) ?w1))"
    by (rule new_events_trans [OF grows_handle grows_sweep_loop])
  then show ?case
    unfolding sweep_loop_Cons [OF h]
    by (simp add: Cons.IH handle_requests handle_clock)
qed


subsection \<open>Deletion and the decision\<close>

text \<open>
  Claim C3, as amended. \<open>delete\<close> is entered for a resource if and only if the decision
  the code takes on it is Expired, that is if and only if its annotation parses to a
  timestamp strictly before \<open>now\<close>: for every other resource (no annotation, an empty or
  unparseable one, a timestamp equal to \<open>now\<close> or later) no call of \<open>delete\<close> begins,
  whatever the name. A delete request is sent for it if and only if it is Expired and
  dry-run is off, and the requests of a whole sweep are those for the resources that are
  expired when their turn comes, in the order of the listing.
\<close>

theorem C3_delete_iff_expired:
  "is_Expired (decision tp now)
     = (\<exists>e t. expiry_of tp = Some e \<and> parse_expiry e = Inr t \<and> datetime_gt now t)
   \<and> (is_Expired (decision tp (clock w 0)) \<longrightarrow>
      delete_started (name (metadata tp))
        (new_events w (snd (handle_trainingportal_expiry api tp dry w))))
   \<and> (\<not> is_Expired (decision tp (clock w 0)) \<longrightarrow>
      (\<forall>n. \<not> delete_started n (new_events w (snd (handle_trainingportal_expiry api tp dry w)))))
   \<and> delete_requests (new_events w (snd (handle_trainingportal_expiry api tp dry w)))
       = (if is_Expired (decision tp (clock w 0)) \<and> \<not> dry then [name (metadata tp)] else [])
   \<and> delete_requests (new_events w (snd (sweep_loop api dry tps c w)))
       = (if dry then [] else map (\<lambda>tp. name (metadata tp)) (expired_in_sweep tps (clock w)))"
proof (intro conjI)
  show "is_Expired (decision tp now)
     = (\<exists>e t. expiry_of tp = Some e \<and> parse_expiry e = Inr t \<and> datetime_gt now t)"
    by (rule is_Expired_decision)
  show "is_Expired (decision tp (clock w 0)) \<longrightarrow>
      delete_started (name (metadata tp))
        (new_events w (snd (handle_trainingportal_expiry api tp dry w)))"
    using handle_started [of tp w api dry] by blast
  show "\<not> is_Expired (decision tp (clock w 0)) \<longrightarrow>
      (\<forall>n. \<not> delete_started n (new_events w (snd (handle_trainingportal_expiry api tp dry w))))"
    using handle_started [of tp w api dry] by blast
  show "delete_requests (new_events w (snd (handle_trainingportal_expiry api tp dry w)))
       = (if is_Expired (decision tp (clock w 0)) \<and> \<not> dry then [name (metadata tp)] else [])"
    by (rule handle_requests)
  show "delete_requests (new_events w (snd (sweep_loop api dry tps c w)))
       = (if dry then [] else map (\<lambda>tp. name (metadata tp)) (expired_in_sweep tps (clock w)))"
    by (rule sweep_loop_requests)
qed

theorem C3_witness:
  "is_Expired (decision (expiring_portal ''portal-a'' ''2022-01-01T13:23:54Z'')
                 (clock (world_at (at_midnight 2023 1 1)) 0))
   \<and> delete_started ''portal-a''
        (new_events (world_at (at_midnight 2023 1 1))
           (snd (handle_trainingportal_expiry (api_of five_portals)
                   (expiring_portal ''portal-a'' ''2022-01-01T13:23:54Z'') False
                   (world_at (at_midnight 2023 1 1)))))
   \<and> \<not> is_Expired (decision (expiring_portal ''portal-c'' ''2024-06-30'')
                 (clock (world_at (at_midnight 2023 1 1)) 0))
   \<and> \<not> delete_started ''portal-c''
        (new_events (world_at (at_midnight 2023 1 1))
           (snd (handle_trainingportal_expiry (api_of five_portals)
                   (expiring_portal ''portal-c'' ''2024-06-30'') False
                   (world_at (at_midnight 2023 1 1)))))
   \<and> delete_requests (new_events (world_at (at_midnight 2023 1 1))
        (snd (sweep_loop (api_of five_portals) False five_portals []
                (world_at (at_midnight 2023 1 1)))))
       = [''portal-a'', ''portal-e'']"
proof -
  let ?pa = "expiring_portal ''portal-a'' ''2022-01-01T13:23:54Z''"
  let ?pc = "expiring_portal ''portal-c'' ''2024-06-30''"
  let ?wd = "world_at (at_midnight 2023 1 1)"
  have a: "is_Expired (decision ?pa (clock ?wd 0))"
    by code_simp
  have c: "\<not> is_Expired (decision ?pc (clock ?wd 0))"
    by code_simp
  have n: "name (metadata ?pa) = ''portal-a''"
    by (simp add: expiring_portal_def portal_def)
  have s: "map (\<lambda>tp. name (metadata tp)) (expired_in_sweep five_portals (clock ?wd))
           = [''portal-a'', ''portal-e'']"
    by code_simp
  note ta = C3_delete_iff_expired [where tp = ?pa and now = "clock ?wd 0" and w = ?wd
              and api = "api_of five_portals" and dry = False and tps = five_portals and c = "[]"]
  note tc = C3_delete_iff_expired [where tp = ?pc and now = "clock ?wd 0" and w = ?wd
              and api = "api_of five_portals" and dry = False and tps = five_portals and c = "[]"]
  note ra = ta [THEN conjunct2, THEN conjunct1, THEN mp, OF a]
  note rc = tc [THEN conjunct2, THEN conjunct2, THEN conjunct1, THEN mp, OF c]
  note rs = ta [THEN conjunct2, THEN conjunct2, THEN conjunct2, THEN conjunct2]
  from a c ra rc rs n s show ?thesis by simp
qed

text \<open>
  The claim as stated fails for the decision of the specification, which is Expired for a
  timestamp equal to \<open>now\<close>: the annotation \<open>2022-01-01\<close> read at 2022-01-01
  00:00:00.000000 is Expired there, and \<open>delete\<close> is not entered and no request is sent.
\<close>

theorem C3_counterexample:
  "spec_decision (expiring_portal ''portal-a'' ''2022-01-01'')
       (clock (world_at (at_midnight 2022 1 1)) 0)
     = Expired (at_midnight 2022 1 1)
   \<and> \<not> delete_started ''portal-a''
        (new_events (world_at (at_midnight 2022 1 1))
           (snd (handle_trainingportal_expiry (api_of five_portals)
                   (expiring_portal ''portal-a'' ''2022-01-01'') False
                   (world_at (at_midnight 2022 1 1)))))
   \<and> delete_requests
        (new_events (world_at (at_midnight 2022 1 1))
           (snd (handle_trainingportal_expiry (api_of five_portals)
                   (expiring_portal ''portal-a'' ''2022-01-01'') False
                   (world_at (at_midnight 2022 1 1))))) = []
   \<and> delete_requests
        (new_events (world_at (at_midnight 2022 1 1))
           (snd (sweep_loop (api_of [expiring_portal ''portal-a'' ''2022-01-01'']) False
                   [expiring_portal ''portal-a'' ''2022-01-01''] []
                   (world_at (at_midnight 2022 1 1))))) = []"
  by code_simp

subsection \<open>Counting\<close>

lemma dict_get_dict_set:
  "dict_get (dict_set k v kvs) k' d = (if k' = k then v else dict_get kvs k' d)"
  by (induction kvs) (auto simp: dict_get_def)

lemma handle_counts:
  assumes "fst (handle_trainingportal_expiry api tp dry w) = Inr c1"
  shows "dict_get (Counter_update c c1) deleted_key 0
           = dict_get c deleted_key 0 + (if is_Expired (decision tp (clock w 0)) then 1 else 0)"
proof (cases rule: handle_cases [where tp = tp and now = "clock w 0"])
  case none
  with assms show ?thesis by (auto simp: handle_no_expiry decision_def parse_expiry_empty)
next
  case (invalid e x)
  with assms show ?thesis by (auto simp: handle_invalid decision_def)
next
  case (pending e t)
  with assms show ?thesis
    by (auto simp: handle_pending decision_parsed dict_get_dict_set with_expiry_key_def deleted_key_def)
next
  case (expired e t)
  with assms show ?thesis
    by (auto simp: handle_expired decision_parsed dict_get_dict_set with_expiry_key_def deleted_key_def)
qed

lemma sweep_loop_counts:
  "fst (sweep_loop api dry tps c w) = Inr c' \<Longrightarrow>
   dict_get c' deleted_key 0
     = dict_get c deleted_key 0 + int (length (expired_in_sweep tps (clock w)))"
proof (induction tps arbitrary: c w)
  case Nil
  then show ?case by simp
next
  case (Cons tp tps)
  obtain c1 where h: "fst (handle_trainingportal_expiry api tp dry w) = Inr c1"
    using handle_returns by blast
  from Cons.prems
  have "fst (sweep_loop api dry tps (Counter_update c c1)
               (snd (handle_trainingportal_expiry api tp dry w))) = Inr c'"
    by (simp only: sweep_loop_Cons [OF h])
  from Cons.IH [OF this] show ?case
    by (simp add: handle_counts [OF h] handle_clock)
qed

lemma grows_sweep_loop_dry: "grows log_event w (snd (sweep_loop api True tps c w))"
proof (induction tps arbitrary: c w)
  case Nil
  show ?case by (simp add: grows_refl)
next
  case (Cons tp tps)
  obtain c1 where h: "fst (handle_trainingportal_expiry api tp True w) = Inr c1"
    using handle_returns by blast
  show ?case
    unfolding sweep_loop_Cons [OF h]
    by (rule grows_trans [OF grows_handle_dry Cons.IH])
qed

lemma messages_differ: "dry_run_message n \<noteq> deleting_message m"
  by (simp add: dry_run_message_def deleting_message_def)

subsection \<open>The summary of an expired resource\<close>

text \<open>
  Claim C2, as amended. For a resource whose annotation parses and is expired, the returned
  summary is exactly \<open>trainingportal-with-expiry: 1, trainingportal-deleted: 1\<close>, for every
  resource client and with or without dry-run: both counters are set once whether the
  delete request succeeds, fails or is only simulated. Over a sweep,
  \<open>trainingportal-deleted\<close> grows by the number of resources that are expired when their
  turn comes, whatever becomes of their delete requests.
\<close>

theorem C2_expired_summary:
  "(expiry_of tp = Some e \<and> parse_expiry e = Inr t \<and> datetime_gt (clock w 0) t \<longrightarrow>
      fst (handle_trainingportal_expiry api tp dry w)
        = Inr [(''trainingportal-with-expiry'', 1), (''trainingportal-deleted'', 1)])
   \<and> (fst (sweep_loop api dry tps c w) = Inr c' \<longrightarrow>
      dict_get c' ''trainingportal-deleted'' 0
        = dict_get c ''trainingportal-deleted'' 0 + int (length (expired_in_sweep tps (clock w))))"
proof (intro conjI impI)
  assume "expiry_of tp = Some e \<and> parse_expiry e = Inr t \<and> datetime_gt (clock w 0) t"
  then have h: "expiry_of tp = Some e" "parse_expiry e = Inr t" "datetime_gt (clock w 0) t"
    by simp_all
  show "fst (handle_trainingportal_expiry api tp dry w)
          = Inr [(''trainingportal-with-expiry'', 1), (''trainingportal-deleted'', 1)]"
    by (simp add: handle_expired [OF h] with_expiry_key_def deleted_key_def)
next
  assume "fst (sweep_loop api dry tps c w) = Inr c'"
  from sweep_loop_counts [OF this]
  show "dict_get c' ''trainingportal-deleted'' 0
          = dict_get c ''trainingportal-deleted'' 0 + int (length (expired_in_sweep tps (clock w)))"
    by (simp add: deleted_key_def)
qed

theorem C2_witness:
  "expiry_of (expiring_portal ''portal-a'' ''2022-01-01T13:23:54Z'') = Some ''2022-01-01T13:23:54Z''
   \<and> parse_expiry ''2022-01-01T13:23:54Z''
       = Inr \<lparr>year = 2022, month = 1, day = 1, hour = 13, minute = 23, second = 54, microsecond = 0\<rparr>
   \<and> datetime_gt (clock (world_at (at_midnight 2023 1 1)) 0)
       \<lparr>year = 2022, month = 1, day = 1, hour = 13, minute = 23, second = 54, microsecond = 0\<rparr>
   \<and> fst (handle_trainingportal_expiry (api_of []) (expiring_portal ''portal-a'' ''2022-01-01T13:23:54Z'')
                  True (world_at (at_midnight 2023 1 1)))
       = Inr [(''trainingportal-with-expiry'', 1), (''trainingportal-deleted'', 1)]
   \<and> fst (sweep_loop (failing_api_of five_portals) False five_portals []
            (world_at (at_midnight 2023 1 1)))
       = Inr [(''trainingportal-with-expiry'', 3), (''trainingportal-deleted'', 2)]
   \<and> dict_get [(''trainingportal-with-expiry'', 3), (''trainingportal-deleted'', 2)]
        ''trainingportal-deleted'' 0
       = dict_get [] ''trainingportal-deleted'' 0
         + int (length (expired_in_sweep five_portals (clock (world_at (at_midnight 2023 1 1)))))"
proof -
  let ?p = "expiring_portal ''portal-a'' ''2022-01-01T13:23:54Z''"
  let ?t = "\<lparr>year = 2022, month = 1, day = 1, hour = 13, minute = 23, second = 54, microsecond = 0\<rparr>"
  let ?wd = "world_at (at_midnight 2023 1 1)"
  have h1: "expiry_of ?p = Some ''2022-01-01T13:23:54Z''"
    by (simp add: expiry_of_expiring_portal)
  have h3: "datetime_gt (clock ?wd 0) ?t"
    by (simp add: world_at_def at_midnight_def datetime_gt_def timetuple_def)
  have h: "expiry_of ?p = Some ''2022-01-01T13:23:54Z''
           \<and> parse_expiry ''2022-01-01T13:23:54Z'' = Inr ?t \<and> datetime_gt (clock ?wd 0) ?t"
    by (intro conjI h1 parse_full h3)
  have s: "fst (sweep_loop (failing_api_of five_portals) False five_portals [] ?wd)
             = Inr [(''trainingportal-with-expiry'', 3), (''trainingportal-deleted'', 2)]"
    by code_simp
  note r1 = C2_expired_summary [where tp = ?p and e = "''2022-01-01T13:23:54Z''" and t = ?t
              and w = ?wd and api = "api_of []" and dry = True, THEN conjunct1, THEN mp, OF h]
  note r2 = C2_expired_summary [where w = ?wd and api = "failing_api_of five_portals"
              and dry = False and tps = five_portals and c = "[]"
              and c' = "[(''trainingportal-with-expiry'', 3), (''trainingportal-deleted'', 2)]",
              THEN conjunct2, THEN mp, OF s]
  from h r1 s r2 show ?thesis by simp
qed

text \<open>
  The claim as stated fails where the delete request is refused: the error is logged and
  \<open>trainingportal-deleted\<close> is counted all the same.
\<close>

theorem C2_counterexample:
  "trace (snd (handle_trainingportal_expiry (failing_api_of [])
            (expiring_portal ''portal-a'' ''2022-01-01T13:23:54Z'') False (world_at (at_midnight 2023 1 1))))
     = [Log INFO ''TrainingPortal portal-a expired on 2022-01-01T13:23:54Z and will be deleted (annotation janitor/expires is set)'',
        Log INFO ''Deleting TrainingPortal portal-a..'',
        DeleteRequest ''portal-a'',
        Log ERROR ''Could not delete TrainingPortal portal-a: Forbidden'']
   \<and> fst (handle_trainingportal_expiry (failing_api_of [])
            (expiring_portal ''portal-a'' ''2022-01-01T13:23:54Z'') False (world_at (at_midnight 2023 1 1)))
     = Inr [(''trainingportal-with-expiry'', 1), (''trainingportal-deleted'', 1)]"
  by code_simp

subsection \<open>Dry run\<close>

text \<open>
  Claim C6. With the dry-run flag set, handling a resource and sweeping a whole listing
  leave the cluster as it was and send no delete request: they only write log lines.
  An expired resource still gets the summary with \<open>trainingportal-deleted: 1\<close>, its last
  log line is the dry-run notice, which differs from the line written before a real
  deletion, and no such line is written. Over a sweep, \<open>trainingportal-deleted\<close> grows by
  the number of resources that are expired when their turn comes.
\<close>

theorem C6_dry_run_sends_no_request:
  "cluster (snd (handle_trainingportal_expiry api tp True w)) = cluster w
   \<and> delete_requests (new_events w (snd (handle_trainingportal_expiry api tp True w))) = []
   \<and> cluster (snd (sweep_loop api True tps c w)) = cluster w
   \<and> delete_requests (new_events w (snd (sweep_loop api True tps c w))) = []
   \<and> list_all log_event (new_events w (snd (sweep_loop api True tps c w)))
   \<and> (is_Expired (decision tp (clock w 0)) \<longrightarrow>
        fst (handle_trainingportal_expiry api tp True w)
          = Inr [(''trainingportal-with-expiry'', 1), (''trainingportal-deleted'', 1)]
        \<and> last (new_events w (snd (handle_trainingportal_expiry api tp True w)))
          = Log INFO (''**DRY-RUN**: would delete TrainingPortal '' @ name (metadata tp))
        \<and> (\<forall>n. Log INFO (deleting_message n)
                 \<notin> set (new_events w (snd (handle_trainingportal_expiry api tp True w)))))
   \<and> (fst (sweep_loop api True tps c w) = Inr c' \<longrightarrow>
        dict_get c' ''trainingportal-deleted'' 0
          = dict_get c ''trainingportal-deleted'' 0 + int (length (expired_in_sweep tps (clock w))))
   \<and> dry_run_message n \<noteq> deleting_message m"
proof (intro conjI impI)
  show "cluster (snd (handle_trainingportal_expiry api tp True w)) = cluster w"
    by (rule handle_cluster_dry)
  show "delete_requests (new_events w (snd (handle_trainingportal_expiry api tp True w))) = []"
    by (simp add: handle_requests)
  show "cluster (snd (sweep_loop api True tps c w)) = cluster w"
    by (rule sweep_loop_cluster_dry)
  show "delete_requests (new_events w (snd (sweep_loop api True tps c w))) = []"
    by (simp add: sweep_loop_requests)
  show "dry_run_message n \<noteq> deleting_message m"
    by (rule messages_differ)
next
  show "list_all log_event (new_events w (snd (sweep_loop api True tps c w)))"
    using grows_new_events [OF grows_sweep_loop_dry] by blast
next
  assume x: "is_Expired (decision tp (clock w 0))"
  then obtain e t where h: "expiry_of tp = Some e" "parse_expiry e = Inr t" "datetime_gt (clock w 0) t"
    by (auto simp: is_Expired_decision)
  show "fst (handle_trainingportal_expiry api tp True w)
          = Inr [(''trainingportal-with-expiry'', 1), (''trainingportal-deleted'', 1)]"
    by (simp add: handle_expired [OF h] with_expiry_key_def deleted_key_def)
  show "last (new_events w (snd (handle_trainingportal_expiry api tp True w)))
          = Log INFO (''**DRY-RUN**: would delete TrainingPortal '' @ name (metadata tp))"
    by (simp add: handle_expired_events [OF h] dry_run_message_def)
  show "\<forall>n. Log INFO (deleting_message n)
                 \<notin> set (new_events w (snd (handle_trainingportal_expiry api tp True w)))"
    by (simp add: handle_expired_events [OF h] dry_run_message_def deleting_message_def
          expired_message_def)
next
  assume "fst (sweep_loop api True tps c w) = Inr c'"
  from sweep_loop_counts [OF this]
  show "dict_get c' ''trainingportal-deleted'' 0
          = dict_get c ''trainingportal-deleted'' 0 + int (length (expired_in_sweep tps (clock w)))"
    by (simp add: deleted_key_def)
qed

theorem C6_witness:
  "is_Expired (decision (expiring_portal ''portal-a'' ''2022-01-01T13:23:54Z'')
                 (clock (world_at (at_midnight 2023 1 1)) 0))
   \<and> fst (handle_trainingportal_expiry (api_of five_portals)
             (expiring_portal ''portal-a'' ''2022-01-01T13:23:54Z'') True
             (world_at (at_midnight 2023 1 1)))
       = Inr [(''trainingportal-with-expiry'', 1), (''trainingportal-deleted'', 1)]
   \<and> last (new_events (world_at (at_midnight 2023 1 1))
        (snd (handle_trainingportal_expiry (api_of five_portals)
             (expiring_portal ''portal-a'' ''2022-01-01T13:23:54Z'') True
             (world_at (at_midnight 2023 1 1)))))
       = Log INFO ''**DRY-RUN**: would delete TrainingPortal portal-a''
   \<and> fst (sweep_loop (api_of five_portals) True five_portals [] (world_at (at_midnight 2023 1 1)))
       = Inr [(''trainingportal-with-expiry'', 3), (''trainingportal-deleted'', 2)]
   \<and> dict_get [(''trainingportal-with-expiry'', 3), (''trainingportal-deleted'', 2)]
        ''trainingportal-deleted'' 0
       = dict_get [] ''trainingportal-deleted'' 0
         + int (length (expired_in_sweep five_portals (clock (world_at (at_midnight 2023 1 1)))))
   \<and> cluster (snd (sweep_loop (api_of five_portals) True five_portals []
                      (world_at (at_midnight 2023 1 1)))) = []"
proof -
  have a: "is_Expired (decision (expiring_portal ''portal-a'' ''2022-01-01T13:23:54Z'')
                 (clock (world_at (at_midnight 2023 1 1)) 0))"
    by code_simp
  have s: "fst (sweep_loop (api_of five_portals) True five_portals [] (world_at (at_midnight 2023 1 1)))
       = Inr [(''trainingportal-with-expiry'', 3), (''trainingportal-deleted'', 2)]"
    by code_simp
  have n: "name (metadata (expiring_portal ''portal-a'' ''2022-01-01T13:23:54Z'')) = ''portal-a''"
    by (simp add: expiring_portal_def portal_def)
  have c: "cluster (world_at (at_midnight 2023 1 1)) = []"
    by (simp add: world_at_def)
  from C6_dry_run_sends_no_request [of "api_of five_portals"
         "expiring_portal ''portal-a'' ''2022-01-01T13:23:54Z''"
         "world_at (at_midnight 2023 1 1)" five_portals "[]"
         "[(''trainingportal-with-expiry'', 3), (''trainingportal-deleted'', 2)]"]
       a s n c
  show ?thesis by simp
qed

subsection \<open>Parsing the annotation\<close>

lemma try_patterns_three:
  "try_patterns expiry [p1, p2, p3] =
     (case strptime expiry p1 of
        Some d \<Rightarrow> Some d
      | None \<Rightarrow> (case strptime expiry p2 of
                   Some d \<Rightarrow> Some d
                 | None \<Rightarrow> strptime expiry p3))"
  by (simp add: replace_tzinfo_None_def split: option.splits)

lemma parse_not_a_date: "parse_expiry ''not-a-date'' = Inl (ValueError (no_match_message ''not-a-date''))"
  by code_simp

text \<open>
  Claim C4. \<open>parse_expiry\<close> tries the three patterns in the order of \<open>DATETIME_PATTERNS\<close>
  (date and time with seconds and a final Z, date and time to the minute, date alone) and
  returns the first result; when none parses it raises a \<open>ValueError\<close> whose message quotes
  the value and gives an example of each of the three formats. In
  \<open>handle_trainingportal_expiry\<close> that error is caught and logged: the function returns
  the empty summary, the cluster is unchanged, no request is sent and \<open>delete\<close> is not
  entered.
\<close>

theorem C4_patterns_in_order_and_failure_reported:
  "parse_expiry expiry =
     (case strptime expiry ''%Y-%m-%dT%H:%M:%SZ'' of
        Some d \<Rightarrow> Inr d
      | None \<Rightarrow>
          (case strptime expiry ''%Y-%m-%dT%H:%M'' of
             Some d \<Rightarrow> Inr d
           | None \<Rightarrow>
               (case strptime expiry ''%Y-%m-%d'' of
                  Some d \<Rightarrow> Inr d
                | None \<Rightarrow>
                    Inl (ValueError (''expiry value '' @ [CHR 0x22] @ expiry @ [CHR 0x22]
                      @ '' does not match format 2022-01-01T13:23:54Z, 2022-01-01T13:23, or 2022-01-01'')))))
   \<and> strptime ''2022-01-01T13:23:54Z'' ''%Y-%m-%dT%H:%M:%SZ''
       = Some \<lparr>year = 2022, month = 1, day = 1, hour = 13, minute = 23, second = 54, microsecond = 0\<rparr>
   \<and> strptime ''2022-01-01T13:23'' ''%Y-%m-%dT%H:%M''
       = Some \<lparr>year = 2022, month = 1, day = 1, hour = 13, minute = 23, second = 0, microsecond = 0\<rparr>
   \<and> strptime ''2022-01-01'' ''%Y-%m-%d''
       = Some \<lparr>year = 2022, month = 1, day = 1, hour = 0, minute = 0, second = 0, microsecond = 0\<rparr>
   \<and> (expiry_of tp = Some expiry \<and> expiry \<noteq> [] \<and> parse_expiry expiry = Inl x \<longrightarrow>
        handle_trainingportal_expiry api tp dry w
          = (Inr [],
             log INFO (''Ignoring invalid expiry date on TrainingPortal '' @ str_opt (attr_name tp)
                         @ '': expiry value '' @ [CHR 0x22] @ expiry @ [CHR 0x22]
                         @ '' does not match format 2022-01-01T13:23:54Z, 2022-01-01T13:23, or 2022-01-01'') w)
        \<and> cluster (snd (handle_trainingportal_expiry api tp dry w)) = cluster w
        \<and> delete_requests (new_events w (snd (handle_trainingportal_expiry api tp dry w))) = []
        \<and> (\<forall>n. \<not> delete_started n (new_events w (snd (handle_trainingportal_expiry api tp dry w))))
        \<and> decision tp now = Invalid (''expiry value '' @ [CHR 0x22] @ expiry @ [CHR 0x22]
                         @ '' does not match format 2022-01-01T13:23:54Z, 2022-01-01T13:23, or 2022-01-01''))"
proof (intro conjI impI)
  show "parse_expiry expiry =
     (case strptime expiry ''%Y-%m-%dT%H:%M:%SZ'' of
        Some d \<Rightarrow> Inr d
      | None \<Rightarrow>
          (case strptime expiry ''%Y-%m-%dT%H:%M'' of
             Some d \<Rightarrow> Inr d
           | None \<Rightarrow>
               (case strptime expiry ''%Y-%m-%d'' of
                  Some d \<Rightarrow> Inr d
                | None \<Rightarrow>
                    Inl (ValueError (''expiry value '' @ [CHR 0x22] @ expiry @ [CHR 0x22]
                      @ '' does not match format 2022-01-01T13:23:54Z, 2022-01-01T13:23, or 2022-01-01'')))))"
    unfolding parse_expiry_def DATETIME_PATTERNS_def try_patterns_three no_match_message_def
    by (simp split: option.splits)
  show "strptime ''2022-01-01T13:23:54Z'' ''%Y-%m-%dT%H:%M:%SZ''
       = Some \<lparr>year = 2022, month = 1, day = 1, hour = 13, minute = 23, second = 54, microsecond = 0\<rparr>"
    by code_simp
  show "strptime ''2022-01-01T13:23'' ''%Y-%m-%dT%H:%M''
       = Some \<lparr>year = 2022, month = 1, day = 1, hour = 13, minute = 23, second = 0, microsecond = 0\<rparr>"
    by code_simp
  show "strptime ''2022-01-01'' ''%Y-%m-%d''
       = Some \<lparr>year = 2022, month = 1, day = 1, hour = 0, minute = 0, second = 0, microsecond = 0\<rparr>"
    by code_simp
next
  assume "expiry_of tp = Some expiry \<and> expiry \<noteq> [] \<and> parse_expiry expiry = Inl x"
  then have h: "expiry_of tp = Some expiry" "expiry \<noteq> []" "parse_expiry expiry = Inl x"
    by simp_all
  have x: "x = ValueError (no_match_message expiry)"
    by (rule parse_expiry_error [OF h(3)])
  show "handle_trainingportal_expiry api tp dry w
          = (Inr [],
             log INFO (''Ignoring invalid expiry date on TrainingPortal '' @ str_opt (attr_name tp)
                         @ '': expiry value '' @ [CHR 0x22] @ expiry @ [CHR 0x22]
                         @ '' does not match format 2022-01-01T13:23:54Z, 2022-01-01T13:23, or 2022-01-01'') w)"
    by (simp add: handle_invalid [OF h] x ignoring_message_def no_match_message_def)
  show "cluster (snd (handle_trainingportal_expiry api tp dry w)) = cluster w"
    by (simp add: handle_invalid [OF h])
  show "delete_requests (new_events w (snd (handle_trainingportal_expiry api tp dry w))) = []"
    by (simp add: handle_invalid_events [OF h])
  show "\<forall>n. \<not> delete_started n (new_events w (snd (handle_trainingportal_expiry api tp dry w)))"
    by (simp add: handle_invalid_events [OF h] started_ignoring)
  show "decision tp now = Invalid (''expiry value '' @ [CHR 0x22] @ expiry @ [CHR 0x22]
                         @ '' does not match format 2022-01-01T13:23:54Z, 2022-01-01T13:23, or 2022-01-01'')"
    using h by (simp add: decision_def x no_match_message_def)
qed

theorem C4_witness:
  "expiry_of (expiring_portal ''portal-b'' ''not-a-date'') = Some ''not-a-date''
   \<and> ''not-a-date'' \<noteq> []
   \<and> parse_expiry ''not-a-date'' = Inl (ValueError (no_match_message ''not-a-date''))
   \<and> fst (handle_trainingportal_expiry (api_of five_portals) (expiring_portal ''portal-b'' ''not-a-date'')
            False (world_at (at_midnight 2023 1 1))) = Inr []
   \<and> cluster (snd (handle_trainingportal_expiry (api_of five_portals)
        (expiring_portal ''portal-b'' ''not-a-date'') False (world_at (at_midnight 2023 1 1)))) = []
   \<and> delete_requests (new_events (world_at (at_midnight 2023 1 1))
        (snd (handle_trainingportal_expiry (api_of five_portals)
           (expiring_portal ''portal-b'' ''not-a-date'') False (world_at (at_midnight 2023 1 1))))) = []"
proof -
  have h1: "expiry_of (expiring_portal ''portal-b'' ''not-a-date'') = Some ''not-a-date''"
    by (simp add: expiry_of_expiring_portal)
  have h2: "''not-a-date'' \<noteq> []" by simp
  have c: "cluster (world_at (at_midnight 2023 1 1)) = []"
    by (simp add: world_at_def)
  have hyp: "expiry_of (expiring_portal ''portal-b'' ''not-a-date'') = Some ''not-a-date''
      \<and> ''not-a-date'' \<noteq> []
      \<and> parse_expiry ''not-a-date'' = Inl (ValueError (no_match_message ''not-a-date''))"
    by (intro conjI h1 h2 parse_not_a_date)
  note imp = C4_patterns_in_order_and_failure_reported [of "''not-a-date''"
         "expiring_portal ''portal-b'' ''not-a-date''" "ValueError (no_match_message ''not-a-date'')"
         "api_of five_portals" False "world_at (at_midnight 2023 1 1)" "at_midnight 2023 1 1",
         THEN conjunct2, THEN conjunct2, THEN conjunct2, THEN conjunct2]
  from imp [THEN mp, OF hyp] hyp c show ?thesis by (simp add: new_events_def)
qed

subsection \<open>Loading the configuration, listing, one run\<close>

lemma get_config_result: "fst (get_in_cluster_with_fallback k w) = Inr v \<Longrightarrow> v = None"
  by (auto simp: get_in_cluster_with_fallback_def Let_def split: sum.splits)

lemma get_config_in_cluster:
  "load_incluster_config k (cluster w) = Inr x \<Longrightarrow> fst (get_in_cluster_with_fallback k w) = Inr None"
  by (simp add: get_in_cluster_with_fallback_def Let_def)

lemma get_config_fallback:
  "load_incluster_config k (cluster w) = Inl e \<Longrightarrow> load_kube_config k (cluster w) = Inr y \<Longrightarrow>
   fst (get_in_cluster_with_fallback k w) = Inr None"
  by (simp add: get_in_cluster_with_fallback_def Let_def)

lemma get_config_raises:
  "load_incluster_config k (cluster w) = Inl e \<Longrightarrow> load_kube_config k (cluster w) = Inl e' \<Longrightarrow>
   fst (get_in_cluster_with_fallback k w) = Inl e'"
  by (simp add: get_in_cluster_with_fallback_def Let_def)

lemma grows_get_config: "grows log_event w (snd (get_in_cluster_with_fallback k w))"
  by (simp add: get_in_cluster_with_fallback_def Let_def grows_def split: sum.splits)


lemma grows_sweep_objects: "grows resource_event w (snd (sweep_objects client v c dry w))"
proof -
  have base: "\<And>c1 c2. grows resource_event w
                 ((log DEBUG (listing_message v) (w\<lparr>cluster := c1\<rparr>))\<lparr>cluster := c2\<rparr>)"
    by (simp add: grows_def)
  show ?thesis
    by (auto simp: sweep_objects_def Let_def grows_def [of _ w "w\<lparr>cluster := _\<rparr>"]
             split: prod.splits sum.splits
             intro: base grows_trans [OF base grows_sweep_loop] grows_cluster grows_log grows_refl)
qed





lemma log_events_quiet: "log_event e \<Longrightarrow> run_event e"
  by (cases e) simp_all

lemma grows_clean_up_run: "grows run_event w (clean_up_run k a w)"
proof (cases "get_in_cluster_with_fallback k w")
  case (Pair r w1)
  have g1: "grows run_event w w1"
  proof -
    from grows_get_config [of w k] Pair have "grows log_event w w1" by simp
    then show ?thesis by (rule grows_mono [rotated]) (rule log_events_quiet)
  qed
  show ?thesis
  proof (cases r)
    case (Inl e)
    have "grows run_event w (log ERROR (failed_message e) w1)"
      by (rule grows_trans [OF g1]) (simp add: grows_log)
    with Pair Inl show ?thesis by (simp add: clean_up_run_def)
  next
    case (Inr configuration)
    with Pair have "configuration = None"
      using get_config_result [of k w configuration] by simp
    then have g2: "grows run_event w (emit (ApiClient configuration) w1)"
      by (intro grows_trans [OF g1] grows_emit) simp
    obtain r2 c where dc: "DynamicClient k configuration (cluster (emit (ApiClient configuration) w1)) = (r2, c)"
      by (cases "DynamicClient k configuration (cluster (emit (ApiClient configuration) w1))")
    have g3: "grows run_event w ((emit (ApiClient configuration) w1)\<lparr>cluster := c\<rparr>)"
      by (rule grows_cluster [OF g2])
    show ?thesis
    proof (cases r2)
      case (Inl e)
      have "grows run_event w (log ERROR (failed_message e) ((emit (ApiClient configuration) w1)\<lparr>cluster := c\<rparr>))"
        by (rule grows_trans [OF g3]) (simp add: grows_log)
      with Pair Inr dc Inl show ?thesis by (simp add: clean_up_run_def Let_def)
    next
      case client: (Inr client)
      let ?w2 = "(emit (ApiClient configuration) w1)\<lparr>cluster := c\<rparr>"
      obtain r3 w3 where so: "sweep_objects client ''training.educates.dev/v1beta1'' []
                                (args_dry_run a) ?w2 = (r3, w3)"
        by (cases "sweep_objects client ''training.educates.dev/v1beta1'' [] (args_dry_run a) ?w2")
      have "grows resource_event ?w2 w3"
        using grows_sweep_objects [of ?w2 client "''training.educates.dev/v1beta1''" "[]" "args_dry_run a"] so
        by simp
      then have "grows run_event ?w2 w3"
        by (rule grows_mono [rotated]) (rule resource_events_quiet)
      from grows_trans [OF g3 this] have g4: "grows run_event w w3" .
      have "\<And>l m. grows run_event w (log l m w3)"
        by (rule grows_trans [OF g4]) (simp add: grows_log)
      with Pair Inr dc client so show ?thesis
        by (auto simp: clean_up_run_def Let_def split: sum.splits)
    qed
  qed
qed

lemma signals_clean_up_run: "signals (clean_up_run k a w) = signals w"
  using grows_clean_up_run [of w k a] by (simp add: grows_def)



subsection \<open>The loop\<close>

lemma trace_after_run [simp]: "trace (after_run k a w) = trace (clean_up_run k a w)"
  by (simp add: after_run_def)

lemma main_loop_unfold:
  "main_loop sleep k a w =
     (if args_once a \<or> signals w 0 = During_run then Some (Returned, after_run k a w)
      else (case sleep (args_interval a) of
              Some e \<Rightarrow> Some (Raised e, after_run k a w)
            | None \<Rightarrow>
                if signals w 0 = During_sleep then Some (Exited, after_sleep k a w)
                else main_loop sleep k a (after_sleep k a w)))"
  by (subst main_loop.simps)
     (simp add: Let_def after_run_def after_sleep_def signals_clean_up_run split: option.splits)

lemma extends_refl: "extends P w w"
  by (simp add: extends_def)

lemma extends_trans: "extends P w w' \<Longrightarrow> extends P w' w'' \<Longrightarrow> extends P w w''"
  by (auto simp: extends_def)

lemma extends_after_run: "extends loop_event w (after_run k a w)"
proof -
  have "grows run_event w (clean_up_run k a w)" by (rule grows_clean_up_run)
  then have "grows loop_event w (clean_up_run k a w)"
    by (rule grows_mono [rotated]) (rule run_events_loop)
  then show ?thesis by (simp add: extends_def grows_def)
qed

lemma extends_after_sleep: "extends loop_event w (after_sleep k a w)"
  using extends_after_run [of w k a]
  by (auto simp: extends_def after_sleep_def)

lemma signal_cases: "s \<noteq> During_run \<Longrightarrow> s \<noteq> During_sleep \<Longrightarrow> s = Quiet"
  by (cases s) simp_all

text \<open>Induction over the iterations of a loop that ends.\<close>

lemma main_loop_induct [consumes 1, case_names returned raised exited again]:
  assumes m: "main_loop sleep k a w = Some y"
    and returned: "\<And>w. args_once a \<or> signals w 0 = During_run \<Longrightarrow> P w (Returned, after_run k a w)"
    and raised: "\<And>w e. \<not> args_once a \<Longrightarrow> signals w 0 \<noteq> During_run \<Longrightarrow>
                   sleep (args_interval a) = Some e \<Longrightarrow> P w (Raised e, after_run k a w)"
    and exited: "\<And>w. \<not> args_once a \<Longrightarrow> signals w 0 = During_sleep \<Longrightarrow>
                   sleep (args_interval a) = None \<Longrightarrow> P w (Exited, after_sleep k a w)"
    and again: "\<And>w y. \<not> args_once a \<Longrightarrow> signals w 0 = Quiet \<Longrightarrow>
                   sleep (args_interval a) = None \<Longrightarrow> P (after_sleep k a w) y \<Longrightarrow> P w y"
  shows "P w y"
proof -
  have "sleep = sleep \<and> k = k \<and> a = a \<longrightarrow> P w y"
  proof (rule main_loop.raw_induct
           [where P = "\<lambda>s' k' a' w y. s' = sleep \<and> k' = k \<and> a' = a \<longrightarrow> P w y", OF _ m])
    fix f :: "time_sleep \<Rightarrow> 'a kubernetes \<Rightarrow> args \<Rightarrow> 'a world \<Rightarrow> (ending \<times> 'a world) option"
    fix s' k' a' w y
    assume IH: "\<And>s'' k'' a'' w y. f s'' k'' a'' w = Some y \<Longrightarrow>
                  s'' = sleep \<and> k'' = k \<and> a'' = a \<longrightarrow> P w y"
    assume body: "(let w1 = clean_up_run k' a' w; sg = signals w1 0;
          w2 = w1\<lparr>signals := \<lambda>n. signals w1 (Suc n)\<rparr>
      in if args_once a' \<or> sg = During_run then Some (Returned, w2)
         else (case s' (args_interval a') of
                 Some e \<Rightarrow> Some (Raised e, w2)
               | None \<Rightarrow>
                   if sg = During_sleep then Some (Exited, emit (Sleep (args_interval a')) w2)
                   else f s' k' a' (emit (Sleep (args_interval a')) w2))) = Some y"
    show "s' = sleep \<and> k' = k \<and> a' = a \<longrightarrow> P w y"
    proof
      assume "s' = sleep \<and> k' = k \<and> a' = a"
      then have s: "s' = sleep" and k: "k' = k" and a: "a' = a" by simp_all
      have b: "(if args_once a \<or> signals w 0 = During_run then Some (Returned, after_run k a w)
           else (case sleep (args_interval a) of
                   Some e \<Rightarrow> Some (Raised e, after_run k a w)
                 | None \<Rightarrow>
                     if signals w 0 = During_sleep then Some (Exited, after_sleep k a w)
                     else f sleep k a (after_sleep k a w))) = Some y"
        using body [unfolded s k a Let_def, folded after_run_def, folded after_sleep_def,
                    unfolded signals_clean_up_run] .
      show "P w y"
      proof (cases "args_once a \<or> signals w 0 = During_run")
        case True
        with b returned [of w] show ?thesis by auto
      next
        case no_stop: False
        show ?thesis
        proof (cases "sleep (args_interval a)")
          case (Some e)
          with b no_stop raised [of w e] show ?thesis by auto
        next
          case slept: None
          show ?thesis
          proof (cases "signals w 0 = During_sleep")
            case True
            with b no_stop slept exited [of w] show ?thesis by auto
          next
            case False
            with no_stop have q: "signals w 0 = Quiet" by (simp add: signal_cases)
            from b no_stop slept False have "f sleep k a (after_sleep k a w) = Some y" by simp
            from IH [OF this] have "P (after_sleep k a w) y" by simp
            with no_stop slept q show ?thesis by (auto intro: again)
          qed
        qed
      qed
    qed
  qed
  then show ?thesis by simp
qed

lemma main_loop_extends:
  "main_loop sleep k a w = Some y \<Longrightarrow> extends loop_event w (snd y)"
proof (induction rule: main_loop_induct)
  case (returned w)
  show ?case by (simp add: extends_after_run)
next
  case (raised w e)
  show ?case by (simp add: extends_after_run)
next
  case (exited w)
  show ?case by (simp add: extends_after_sleep)
next
  case (again w y)
  from extends_trans [OF extends_after_sleep again(4)] show ?case .
qed



subsection \<open>What a run and the loop add to the trace\<close>

lemma loop_events_configurations: "list_all loop_event es \<Longrightarrow> set (configurations es) \<subseteq> {None}"
proof (induction es)
  case Nil
  show ?case by (simp add: configurations_def)
next
  case (Cons e es)
  then show ?case by (cases e) (auto simp: configurations_def)
qed

lemma extends_new_events: "extends P w w' \<Longrightarrow> list_all P (new_events w w')"
  by (auto simp: extends_def new_events_def)





lemma in_cluster_loads:
  "load_incluster_config (in_cluster_kubernetes_of api) c = Inr ''in-cluster-config''"
  by (simp add: in_cluster_kubernetes_of_def)

lemma fallback_loads:
  "load_incluster_config (kubernetes_of api) c = Inl (Exception ''Service host/port is not set.'')
   \<and> load_kube_config (kubernetes_of api) c = Inr ''kube-config''"
  by (simp add: kubernetes_of_def)



subsection \<open>The configuration of the API client\<close>

text \<open>
  Claim C9. Whenever \<open>get_in_cluster_with_fallback\<close> returns, it returns \<open>None\<close>, whether
  the in-cluster configuration loaded or the local one did after the first had failed. So
  every API client that a run, and the whole loop, constructs gets \<open>configuration=None\<close>.
\<close>

theorem C9_configuration_is_None:
  "(fst (get_in_cluster_with_fallback k w) = Inr v \<longrightarrow> v = None)
   \<and> (load_incluster_config k (cluster w) = Inr x \<longrightarrow>
        fst (get_in_cluster_with_fallback k w) = Inr None)
   \<and> (load_incluster_config k (cluster w) = Inl e \<and> load_kube_config k (cluster w) = Inr x' \<longrightarrow>
        fst (get_in_cluster_with_fallback k w) = Inr None)
   \<and> set (configurations (new_events w (clean_up_run k a w))) \<subseteq> {None}
   \<and> (main_loop sleep k a w = Some y \<longrightarrow> set (configurations (new_events w (snd y))) \<subseteq> {None})"
proof (intro conjI impI)
  assume "fst (get_in_cluster_with_fallback k w) = Inr v"
  then show "v = None" by (rule get_config_result)
next
  assume "load_incluster_config k (cluster w) = Inr x"
  then show "fst (get_in_cluster_with_fallback k w) = Inr None" by (rule get_config_in_cluster)
next
  assume "load_incluster_config k (cluster w) = Inl e \<and> load_kube_config k (cluster w) = Inr x'"
  then show "fst (get_in_cluster_with_fallback k w) = Inr None"
    by (simp add: get_config_fallback)
next
  have "list_all run_event (new_events w (clean_up_run k a w))"
    using grows_new_events [OF grows_clean_up_run] by blast
  then have "list_all loop_event (new_events w (clean_up_run k a w))"
    by (auto simp: list_all_iff run_events_loop)
  then show "set (configurations (new_events w (clean_up_run k a w))) \<subseteq> {None}"
    by (rule loop_events_configurations)
next
  assume "main_loop sleep k a w = Some y"
  then have "extends loop_event w (snd y)" by (rule main_loop_extends)
  then have "list_all loop_event (new_events w (snd y))" by (rule extends_new_events)
  then show "set (configurations (new_events w (snd y))) \<subseteq> {None}"
    by (rule loop_events_configurations)
qed

theorem C9_witness:
  "load_incluster_config (in_cluster_kubernetes_of (api_of five_portals))
       (cluster (world_at (at_midnight 2023 1 1))) = Inr ''in-cluster-config''
   \<and> fst (get_in_cluster_with_fallback (in_cluster_kubernetes_of (api_of five_portals))
            (world_at (at_midnight 2023 1 1))) = Inr None
   \<and> load_incluster_config (kubernetes_of (api_of five_portals))
       (cluster (world_at (at_midnight 2023 1 1))) = Inl (Exception ''Service host/port is not set.'')
   \<and> load_kube_config (kubernetes_of (api_of five_portals))
       (cluster (world_at (at_midnight 2023 1 1))) = Inr ''kube-config''
   \<and> fst (get_in_cluster_with_fallback (kubernetes_of (api_of five_portals))
            (world_at (at_midnight 2023 1 1))) = Inr None
   \<and> configurations (new_events (world_at (at_midnight 2023 1 1))
        (clean_up_run (kubernetes_of (api_of five_portals)) (args_of False True 30)
           (world_at (at_midnight 2023 1 1)))) = [None]
   \<and> main_loop py_time_sleep (kubernetes_of (api_of five_portals)) (args_of False True 30)
        (world_at (at_midnight 2023 1 1))
       = Some (Returned, after_run (kubernetes_of (api_of five_portals)) (args_of False True 30)
                 (world_at (at_midnight 2023 1 1)))
   \<and> set (configurations (new_events (world_at (at_midnight 2023 1 1))
        (after_run (kubernetes_of (api_of five_portals)) (args_of False True 30)
           (world_at (at_midnight 2023 1 1))))) \<subseteq> {None}"
proof -
  let ?wd = "world_at (at_midnight 2023 1 1)"
  let ?k = "kubernetes_of (api_of five_portals)"
  let ?ki = "in_cluster_kubernetes_of (api_of five_portals)"
  let ?a = "args_of False True 30"
  have h1: "load_incluster_config ?ki (cluster ?wd) = Inr ''in-cluster-config''"
    by (rule in_cluster_loads)
  have h2: "load_incluster_config ?k (cluster ?wd) = Inl (Exception ''Service host/port is not set.'')
            \<and> load_kube_config ?k (cluster ?wd) = Inr ''kube-config''"
    by (rule fallback_loads)
  have h3: "main_loop py_time_sleep ?k ?a ?wd = Some (Returned, after_run ?k ?a ?wd)"
    by (subst main_loop_unfold) (simp add: args_of_def)
  have c: "configurations (new_events ?wd (clean_up_run ?k ?a ?wd)) = [None]"
    by code_simp
  note r1 = C9_configuration_is_None [where k = ?ki and w = ?wd and x = "''in-cluster-config''",
              THEN conjunct2, THEN conjunct1, THEN mp, OF h1]
  note r2 = C9_configuration_is_None [where k = ?k and w = ?wd
              and e = "Exception ''Service host/port is not set.''" and x' = "''kube-config''",
              THEN conjunct2, THEN conjunct2, THEN conjunct1, THEN mp, OF h2]
  note r3 = C9_configuration_is_None [where k = ?k and w = ?wd and a = ?a and sleep = py_time_sleep
              and y = "(Returned, after_run ?k ?a ?wd)",
              THEN conjunct2, THEN conjunct2, THEN conjunct2, THEN conjunct2, THEN mp, OF h3]
  from h1 h2 h3 c r1 r2 r3 show ?thesis by simp
qed

subsection \<open>The loop between runs\<close>




subsection \<open>Containment of errors\<close>



end
